theory Spec2Isabelle
  imports Complex_Main "HOL-Library.Word" "HOL-Library.Signed_Division" "HOL-Library.Log_Nat"
begin

section \<open>Conventions of the embedding\<close>

text \<open>
  The C sources are \<^verbatim>\<open>viewbuf.cpp\<close> (the method \<^verbatim>\<open>UI_Mainwindow::setup_viewbuf\<close>),
  \<^verbatim>\<open>filt/z_ratio_filter.c\<close> and \<^verbatim>\<open>filt/math_func.c\<close>.

  \<^item> \<^verbatim>\<open>int\<close> and \<^verbatim>\<open>long long\<close> values are modelled by \<^typ>\<open>int\<close>; the C operators
    \<^verbatim>\<open>/\<close> and \<^verbatim>\<open>%\<close> on them truncate towards zero and are written \<open>sdiv\<close> and \<open>smod\<close>.
    Signed overflow is undefined in C and is not modelled.
  \<^item> \<^verbatim>\<open>unsigned long long\<close> arithmetic wraps and is written with \<open>u64\<close>.
  \<^item> \<^verbatim>\<open>double\<close> values are modelled by \<^typ>\<open>real\<close>. In \<^verbatim>\<open>viewbuf.cpp\<close> every arithmetic
    operation on doubles and every conversion of an integer to \<^verbatim>\<open>double\<close> is rounded to
    the nearest binary64 number, ties to even, which is written \<open>dbl\<close> (IEEE 754 arithmetic
    with every operation rounded to \<^verbatim>\<open>double\<close>, as on x86-64). Infinities and NaN are not
    modelled: a division by 0.0 and a result beyond the largest double are outside the
    model. In the Z-ratio filter and in \<^verbatim>\<open>math_func.c\<close> the operations on doubles are exact
    operations on reals.
  \<^item> A conversion \<^verbatim>\<open>(int)x\<close> or \<^verbatim>\<open>(long long)x\<close> of a double truncates towards zero,
    which is written \<open>c_trunc\<close>. When the truncated value does not fit the integer type,
    C leaves the conversion undefined; \<open>c_int\<close> and \<open>c_longlong\<close> give the smallest value of
    the type there, as the conversion instructions of x86-64 do.
  \<^item> Functions and types whose definitions are in files that are not part of the sources
    (the FFT of the kiss_fft library, \<^verbatim>\<open>dblcmp\<close>, the filters other than the Z-ratio filter,
    \<^verbatim>\<open>remove_all_signals\<close>) are parameters of the model.
\<close>

definition c_trunc :: "real \<Rightarrow> int" where
  "c_trunc x = (if 0 \<le> x then \<lfloor>x\<rfloor> else \<lceil>x\<rceil>)"

definition c_int :: "real \<Rightarrow> int" where
  "c_int x = (if - 2147483649 < x \<and> x < 2147483648 then c_trunc x else - 2147483648)"

definition c_longlong :: "real \<Rightarrow> int" where
  "c_longlong x =
    (if - 9223372036854775809 < x \<and> x < 9223372036854775808 then c_trunc x
     else - 9223372036854775808)"

text \<open>Rounding to the nearest integer, ties to the even one.\<close>

definition round_even :: "real \<Rightarrow> int" where
  "round_even y =
    (let f = \<lfloor>y\<rfloor>; r = y - real_of_int f
     in if r < 1 / 2 then f else if 1 / 2 < r then f + 1 else if even f then f else f + 1)"

text \<open>The binary exponent \<open>e\<close> of a number other than 0: \<open>2\<^sup>e \<le> \<bar>x\<bar> < 2\<^sup>e\<^sup>+\<^sup>1\<close>.\<close>

definition dbl_exponent :: "real \<Rightarrow> int" where
  "dbl_exponent x =
    (if 1 \<le> \<bar>x\<bar> then bitlen \<lfloor>\<bar>x\<bar>\<rfloor> - 1 else - bitlen (\<lceil>1 / \<bar>x\<bar>\<rceil> - 1))"

text \<open>
  Rounding to \<^verbatim>\<open>double\<close>: the nearest multiple of the unit in the last place, which is
  \<open>2\<^sup>e\<^sup>-\<^sup>5\<^sup>2\<close> for a number with the exponent \<open>e\<close>, and \<open>2\<^sup>-\<^sup>1\<^sup>0\<^sup>7\<^sup>4\<close> for the subnormal numbers.
\<close>

definition dbl :: "real \<Rightarrow> real" where
  "dbl x =
    (if x = 0 then 0
     else let u = 2 powi (max (dbl_exponent x) (- 1022) - 52)
          in real_of_int (round_even (x / u)) * u)"

text \<open>The conversion of an integer to \<^verbatim>\<open>double\<close>, and the four operations on doubles.\<close>

definition d_of_int :: "int \<Rightarrow> real" where
  "d_of_int n = dbl (real_of_int n)"

definition d_add :: "real \<Rightarrow> real \<Rightarrow> real" where
  "d_add x y = dbl (x + y)"

definition d_sub :: "real \<Rightarrow> real \<Rightarrow> real" where
  "d_sub x y = dbl (x - y)"

definition d_mul :: "real \<Rightarrow> real \<Rightarrow> real" where
  "d_mul x y = dbl (x * y)"

definition d_div :: "real \<Rightarrow> real \<Rightarrow> real" where
  "d_div x y = dbl (x / y)"

definition u64 :: "int \<Rightarrow> int" where
  "u64 x = x mod 2 ^ 64"

definition TIME_FIXP_SCALING :: int where
  "TIME_FIXP_SCALING = 10000000"

section \<open>The Z-ratio filter (filt/z\_ratio\_filter.c)\<close>

definition ZRATIO_EPOCH_LEN :: int where
  "ZRATIO_EPOCH_LEN = 2"

definition ZRATIO_F0 :: real where
  "ZRATIO_F0 = 0.5"

definition ZRATIO_F1 :: real where
  "ZRATIO_F1 = 3.0"

definition ZRATIO_F3 :: real where
  "ZRATIO_F3 = 12.0"

definition ZRATIO_F4 :: real where
  "ZRATIO_F4 = 25.0"

definition ZR_TIME_FIXP_SCALING :: int where
  "ZR_TIME_FIXP_SCALING = 10000000"

text \<open>
  The struct \<^verbatim>\<open>zratiofiltset_t\<close>. The FFT configuration \<^verbatim>\<open>cfg\<close> and the scratch array
  \<^verbatim>\<open>kiss_fftbuf\<close> belong to the FFT library and are not part of the record; the spectrum
  is the value returned by the parameter \<open>kiss_fftr\<close>.
\<close>

record zratiofiltset =
  crossoverfreq :: real
  bitvalue :: real
  dftblocksize :: int
  samplefreq :: real
  fft_outputbufsize :: int
  freqstep :: real
  f0 :: int
  f1 :: int
  f2 :: int
  f3 :: int
  f4 :: int
  fft_inputbuf :: "real list"
  fft_inputbuf_bu :: "real list"
  fft_outputbuf :: "real list"
  smpls_in_inputbuf :: int
  smpls_in_inputbuf_bu :: int
  zratio_value :: real
  zratio_value_bu :: real

text \<open>
  \<^verbatim>\<open>create_zratio_filter\<close>. \<open>dblcmp\<close> is the three-way comparison of doubles of the
  utilities; \<open>junk_in\<close> and \<open>junk_bu\<close> give the indeterminate contents of the two
  blocks obtained from \<^verbatim>\<open>malloc\<close>. \<open>Inr None\<close> is the \<^verbatim>\<open>NULL\<close> result. The allocations
  themselves are taken to succeed. The integer division of line 54 by a record duration
  of 0 ends the process; this is the result \<open>Inl Division_by_zero\<close>.
\<close>

datatype c_fault = Division_by_zero

definition create_zratio_filter ::
  "(real \<Rightarrow> real \<Rightarrow> int) \<Rightarrow> (nat \<Rightarrow> real) \<Rightarrow> (nat \<Rightarrow> real) \<Rightarrow>
   int \<Rightarrow> int \<Rightarrow> real \<Rightarrow> real \<Rightarrow> c_fault + zratiofiltset option" where
  "create_zratio_filter dblcmp junk_in junk_bu smp_per_rec long_data_rec_duration crossoverf bitval =
    (if long_data_rec_duration = 0 then Inl Division_by_zero
     else
     let blk = (smp_per_rec * (ZRATIO_EPOCH_LEN * ZR_TIME_FIXP_SCALING)) sdiv long_data_rec_duration in
     if blk < ZRATIO_EPOCH_LEN * 100 then Inr None
     else
       let sfreq = real_of_int smp_per_rec
                     / (real_of_int long_data_rec_duration / real_of_int ZR_TIME_FIXP_SCALING) in
       if dblcmp sfreq 100.0 < 0 then Inr None
       else
         let fstep = sfreq / real_of_int blk in
         if dblcmp fstep 1.0 > 0 then Inr None
         else
           let f0v = c_trunc (ZRATIO_F0 / fstep) in
           Inr (Some \<lparr> crossoverfreq = crossoverf,
                  bitvalue = bitval,
                  dftblocksize = blk,
                  samplefreq = sfreq,
                  fft_outputbufsize = blk sdiv 2,
                  freqstep = fstep,
                  f0 = (if f0v < 1 then 1 else f0v),
                  f1 = c_trunc (ZRATIO_F1 / fstep),
                  f2 = c_trunc (crossoverf / fstep),
                  f3 = c_trunc (ZRATIO_F3 / fstep),
                  f4 = c_trunc (ZRATIO_F4 / fstep),
                  fft_inputbuf = map junk_in [0..<nat blk],
                  fft_inputbuf_bu = map junk_bu [0..<nat blk],
                  fft_outputbuf = replicate (nat (blk sdiv 2)) 0,
                  smpls_in_inputbuf = 0,
                  smpls_in_inputbuf_bu = 0,
                  zratio_value = 0,
                  zratio_value_bu = 0 \<rparr>))"

text \<open>
  The body of the loop over the spectrum bins in \<^verbatim>\<open>run_zratio_filter\<close>: bin \<open>i\<close> of
  the power spectrum is stored and added to the band it lies in. The loop state is the
  output buffer and the four band powers (delta, theta, alpha, beta).
\<close>

definition zratio_bin ::
  "zratiofiltset \<Rightarrow> (real \<times> real) list \<Rightarrow> real list \<times> real \<times> real \<times> real \<times> real \<Rightarrow> nat
   \<Rightarrow> real list \<times> real \<times> real \<times> real \<times> real" where
  "zratio_bin st spec acc n =
    (case acc of (outbuf, p_delta, p_theta, p_alpha, p_beta) \<Rightarrow>
      let i = int n;
          p = (fst (spec ! n) * fst (spec ! n) + snd (spec ! n) * snd (spec ! n))
                / real_of_int (fft_outputbufsize st)
      in (outbuf[n := p],
          (if f0 st \<le> i \<and> i < f1 st then p_delta + p else p_delta),
          (if f1 st \<le> i \<and> i < f2 st then p_theta + p else p_theta),
          (if f2 st \<le> i \<and> i < f3 st then p_alpha + p else p_alpha),
          (if f3 st \<le> i \<and> i \<le> f4 st then p_beta + p else p_beta)))"

text \<open>
  The block branch of \<^verbatim>\<open>run_zratio_filter\<close> after the transform: the loop over the
  bins, then the ratio of the band powers. The result is the new output buffer and the
  new stored ratio.
\<close>

definition zratio_block_value ::
  "(real \<Rightarrow> real \<Rightarrow> int) \<Rightarrow> zratiofiltset \<Rightarrow> (real \<times> real) list \<Rightarrow> real list \<times> real" where
  "zratio_block_value dblcmp st spec =
    (case foldl (zratio_bin st spec) (fft_outputbuf st, 0, 0, 0, 0)
            [0..<nat (fft_outputbufsize st)] of
      (outbuf, p_delta, p_theta, p_alpha, p_beta) \<Rightarrow>
        let p_total = p_delta + p_theta + p_alpha + p_beta in
        (outbuf,
         if dblcmp p_total 0.0 > 0
         then ((p_delta + p_theta) - (p_alpha + p_beta)) / p_total
         else 0.0))"

text \<open>
  \<^verbatim>\<open>run_zratio_filter\<close>: the sample is stored at the counter, the counter is incremented,
  and when it has reached the block size the counter returns to 0, the block is
  transformed and the stored ratio is recomputed. The result is the stored ratio divided
  by \<open>bitvalue\<close>.
\<close>

definition run_zratio_filter ::
  "(real list \<Rightarrow> (real \<times> real) list) \<Rightarrow> (real \<Rightarrow> real \<Rightarrow> int) \<Rightarrow> real \<Rightarrow> zratiofiltset
   \<Rightarrow> real \<times> zratiofiltset" where
  "run_zratio_filter kiss_fftr dblcmp new_sample st =
    (let st1 = st \<lparr> fft_inputbuf := (fft_inputbuf st)[nat (smpls_in_inputbuf st) := new_sample],
                    smpls_in_inputbuf := smpls_in_inputbuf st + 1 \<rparr> in
     if smpls_in_inputbuf st1 \<ge> dftblocksize st1 then
       let spec = kiss_fftr (take (nat (dftblocksize st1)) (fft_inputbuf st1));
           st2 = st1 \<lparr> smpls_in_inputbuf := 0,
                        fft_outputbuf := fst (zratio_block_value dblcmp st1 spec),
                        zratio_value := snd (zratio_block_value dblcmp st1 spec) \<rparr>
       in (zratio_value st2 / bitvalue st2, st2)
     else (zratio_value st1 / bitvalue st1, st1))"

text \<open>
  \<^verbatim>\<open>memcpy(dst, src, n)\<close> between two arrays of doubles, where \<open>n\<close> counts bytes and a
  double has 8 bytes: the first \<open>n div 8\<close> elements are copied whole, and when \<open>n\<close> is
  not a multiple of 8 the next element receives only the first \<open>n mod 8\<close> bytes of the
  source element. The value of such a spliced double depends on the object representation
  and is given by the parameter \<open>dsplice\<close>.
\<close>

definition memcpy_doubles ::
  "(nat \<Rightarrow> real \<Rightarrow> real \<Rightarrow> real) \<Rightarrow> real list \<Rightarrow> real list \<Rightarrow> nat \<Rightarrow> real list" where
  "memcpy_doubles dsplice dst src n =
    (let k = n div 8; r = n mod 8 in
     if r = 0 then take k src @ drop k dst
     else take k src @ [dsplice r (src ! k) (dst ! k)] @ drop (Suc k) dst)"

text \<open>\<^verbatim>\<open>zratio_filter_save_buf\<close> and \<^verbatim>\<open>zratio_filter_restore_buf\<close>: the byte count handed
  to \<^verbatim>\<open>memcpy\<close> is \<^verbatim>\<open>settings->dftblocksize\<close>.\<close>

definition zratio_filter_save_buf ::
  "(nat \<Rightarrow> real \<Rightarrow> real \<Rightarrow> real) \<Rightarrow> zratiofiltset \<Rightarrow> zratiofiltset" where
  "zratio_filter_save_buf dsplice st =
    st \<lparr> smpls_in_inputbuf_bu := smpls_in_inputbuf st,
         zratio_value_bu := zratio_value st,
         fft_inputbuf_bu :=
           memcpy_doubles dsplice (fft_inputbuf_bu st) (fft_inputbuf st) (nat (dftblocksize st)) \<rparr>"

definition zratio_filter_restore_buf ::
  "(nat \<Rightarrow> real \<Rightarrow> real \<Rightarrow> real) \<Rightarrow> zratiofiltset \<Rightarrow> zratiofiltset" where
  "zratio_filter_restore_buf dsplice st =
    st \<lparr> smpls_in_inputbuf := smpls_in_inputbuf_bu st,
         zratio_value := zratio_value_bu st,
         fft_inputbuf :=
           memcpy_doubles dsplice (fft_inputbuf st) (fft_inputbuf_bu st) (nat (dftblocksize st)) \<rparr>"

definition reset_zratio_filter :: "zratiofiltset \<Rightarrow> zratiofiltset" where
  "reset_zratio_filter st = st \<lparr> smpls_in_inputbuf := 0, zratio_value := 0.0 \<rparr>"

text \<open>
  A caller's loop that hands the samples of a list to \<^verbatim>\<open>run_zratio_filter\<close> one after the
  other; the results are collected in order.
\<close>

fun zratio_feed ::
  "(real list \<Rightarrow> (real \<times> real) list) \<Rightarrow> (real \<Rightarrow> real \<Rightarrow> int) \<Rightarrow> real list \<Rightarrow> zratiofiltset
   \<Rightarrow> real list \<times> zratiofiltset" where
  "zratio_feed kiss_fftr dblcmp [] st = ([], st)"
| "zratio_feed kiss_fftr dblcmp (x # xs) st =
    (case run_zratio_filter kiss_fftr dblcmp x st of
      (y, st1) \<Rightarrow>
        (case zratio_feed kiss_fftr dblcmp xs st1 of
          (ys, st2) \<Rightarrow> (y # ys, st2)))"

text \<open>
  The invariant that \<^verbatim>\<open>create_zratio_filter\<close> establishes and every operation keeps: the
  block has at least 200 samples, both sample arrays have that many elements, and both
  counters index into them.
\<close>

definition zratio_inv :: "zratiofiltset \<Rightarrow> bool" where
  "zratio_inv st =
    (ZRATIO_EPOCH_LEN * 100 \<le> dftblocksize st
     \<and> length (fft_inputbuf st) = nat (dftblocksize st)
     \<and> length (fft_inputbuf_bu st) = nat (dftblocksize st)
     \<and> 0 \<le> smpls_in_inputbuf st \<and> smpls_in_inputbuf st < dftblocksize st
     \<and> 0 \<le> smpls_in_inputbuf_bu st \<and> smpls_in_inputbuf_bu st < dftblocksize st)"


section \<open>Math functions (filt/math\_func.c)\<close>

definition MATH_FUNC_NONE :: int where
  "MATH_FUNC_NONE = 0"

definition MATH_FUNC_SQUARE :: int where
  "MATH_FUNC_SQUARE = 1"

definition MATH_FUNC_SQRT :: int where
  "MATH_FUNC_SQRT = 2"

definition MATH_FUNC_ABS :: int where
  "MATH_FUNC_ABS = 3"

definition MATH_FUNC_PK_HOLD :: int where
  "MATH_FUNC_PK_HOLD = 4"

text \<open>The numeric fields of \<^verbatim>\<open>mathfuncset_t\<close>; the values of the five selectors follow
  the order of the table \<^verbatim>\<open>math_func_descr\<close>.\<close>

record mathfuncset =
  func :: int
  pk_hold_smpls_set :: int
  pk_hold_smpl_cntr :: int
  pk_hold_val :: real

definition run_math_func :: "real \<Rightarrow> mathfuncset \<Rightarrow> real \<times> mathfuncset" where
  "run_math_func val st =
    (if func st = MATH_FUNC_SQUARE then
       (if val < 0 then (- val * val, st) else (val * val, st))
     else if func st = MATH_FUNC_SQRT then
       (if val < 0 then (- sqrt (- val), st) else (sqrt val, st))
     else if func st = MATH_FUNC_ABS then (\<bar>val\<bar>, st)
     else if func st = MATH_FUNC_PK_HOLD then
       (let st1 = st \<lparr> pk_hold_smpl_cntr := pk_hold_smpl_cntr st + 1 \<rparr> in
        if val > pk_hold_val st1 \<or> pk_hold_smpl_cntr st1 \<ge> pk_hold_smpls_set st1
        then (val, st1 \<lparr> pk_hold_val := val, pk_hold_smpl_cntr := 0 \<rparr>)
        else (pk_hold_val st1, st1))
     else if func st = MATH_FUNC_NONE then (val, st)
     else (0, st))"

section \<open>The state of the main window used by setup\_viewbuf (viewbuf.cpp)\<close>

text \<open>
  A byte of the view buffer is \<open>Some b\<close> once it has been written and \<open>None\<close> while it
  still holds the indeterminate contents left by \<^verbatim>\<open>malloc\<close>.
\<close>

type_synonym byte = "8 word"

type_synonym mem = "byte option list"

record edfparamblock =
  smp_per_record :: int
  datrec_offset :: int
  offset :: real
  sf_f :: real

text \<open>
  The fields of \<^verbatim>\<open>edfhdrblock\<close> that \<^verbatim>\<open>setup_viewbuf\<close> uses. \<open>file_hdl\<close> is the
  address of the open \<^verbatim>\<open>FILE\<close>; the flags \<open>edf\<close> and \<open>bdf\<close> are C ints used as
  truth values.
\<close>

record edfhdrblock =
  file_hdl :: nat
  edf :: bool
  bdf :: bool
  hdrsize :: int
  recordsize :: int
  datarecords :: int
  long_data_record_duration :: int
  viewtime :: int
  prefiltertime :: int
  edfparam :: "edfparamblock list"

text \<open>
  Filters whose implementation is not part of the sources are opaque values of a type
  \<open>'f\<close>; only the struct fields that \<^verbatim>\<open>setup_viewbuf\<close> reads or writes itself are
  named.
\<close>

record 'f first_order_filt =
  cutoff_frequency :: real
  old_input :: real
  old_output :: real
  fo_rest :: 'f

record 'f ravg_filt =
  ravg_size :: int
  ravg_rest :: 'f

record 'f fid_filt =
  fidfilter_order :: int
  fidfilter_freq :: real
  fidbuf :: 'f
  fidbuf2 :: 'f

text \<open>
  \<^verbatim>\<open>signalcompblock\<close>. The pointer \<open>edfhdr\<close> is the index of the header in
  \<open>edfheaderlist\<close>; \<open>edfparam_0\<close> points to the immutable parameters of the first
  signal and is held by value. An array together with its count (\<^verbatim>\<open>filter\<close> and
  \<^verbatim>\<open>filter_cnt\<close>, and so on) is one list, a pointer that may be \<^verbatim>\<open>NULL\<close> is an option.
\<close>

record 'f signalcompblock =
  edfhdr :: nat
  edfsignal :: "int list"
  factor :: "real list"
  edfparam_0 :: edfparamblock
  filter_arr :: "'f first_order_filt list"
  filterpreset_a :: "real list"
  filterpreset_b :: "real list"
  spike_filter :: "'f option"
  math_func_before :: "mathfuncset list"
  math_func_after :: "mathfuncset list"
  ravg_filter :: "'f ravg_filt list"
  fidfilter :: "'f fid_filt list"
  fir_filter :: "'f list"
  plif_ecg_filter :: "'f option"
  plif_ecg_filter_sav :: "'f option"
  plif_eeg_filter :: "'f option"
  plif_eeg_filter_sav :: "'f option"
  ecg_filter :: "'f option"
  zratio_filter :: "zratiofiltset option"
  viewbufsize :: int
  viewbufoffset :: int
  records_in_viewbuf :: int
  samples_on_screen :: int
  samples_in_prefilterbuf :: int
  sample_start :: int
  sample_stop :: int
  sample_timeoffset :: int
  sample_timeoffset_part :: real
  prefilter_starttime :: int
  prefilter_reset_sample :: int

text \<open>
  The members of \<^verbatim>\<open>UI_Mainwindow\<close> that take part, and the environment: \<open>files\<close>
  gives the contents of each open file by its handle. Two fields are instrumentation:
  \<open>messages\<close> collects the texts shown with \<^verbatim>\<open>QMessageBox::critical\<close>, and \<open>freads\<close>
  collects handle, file position and size of every \<^verbatim>\<open>fread\<close> call.
\<close>

record 'f mainwindow =
  edfheaderlist :: "edfhdrblock list"
  signalcomp :: "'f signalcompblock list"
  viewbuf :: "mem option"
  totalviewbufsize_bytes :: int
  pagetime :: int
  live_stream_active :: bool
  messages :: "string list"
  files :: "nat \<Rightarrow> byte list"
  freads :: "(nat \<times> int \<times> int) list"

text \<open>
  The functions that \<^verbatim>\<open>setup_viewbuf\<close> calls and that are defined elsewhere, and the
  properties of the platform: \<open>lp64\<close> selects the 64-bit branch of the preprocessor
  conditionals, \<open>malloc_ok n\<close> tells whether an allocation of \<open>n\<close> bytes succeeds, and
  \<open>uninit_byte\<close> is the value found when an unwritten byte of the buffer is read.
\<close>

record 'f viewbuf_lib =
  lp64 :: bool
  malloc_ok :: "int \<Rightarrow> bool"
  uninit_byte :: "nat \<Rightarrow> byte"
  remove_all_signals :: "'f mainwindow \<Rightarrow> 'f mainwindow"
  run_spike_filter :: "real \<Rightarrow> 'f \<Rightarrow> real \<times> 'f"
  spike_filter_save_buf :: "'f \<Rightarrow> 'f"
  first_order_filter :: "real \<Rightarrow> 'f first_order_filt \<Rightarrow> real \<times> 'f first_order_filt"
  reset_ravg_filter :: "real \<Rightarrow> 'f ravg_filt \<Rightarrow> 'f ravg_filt"
  run_ravg_filter :: "real \<Rightarrow> 'f ravg_filt \<Rightarrow> real \<times> 'f ravg_filt"
  ravg_filter_save_buf :: "'f ravg_filt \<Rightarrow> 'f ravg_filt"
  fidfuncp :: "'f \<Rightarrow> real \<Rightarrow> real \<times> 'f"
  fir_filter_size :: "'f \<Rightarrow> int"
  run_fir_filter :: "real \<Rightarrow> 'f \<Rightarrow> real \<times> 'f"
  fir_filter_save_buf :: "'f \<Rightarrow> 'f"
  plif_ecg_run_subtract_filter :: "real \<Rightarrow> 'f \<Rightarrow> real \<times> 'f"
  plif_ecg_subtract_filter_state_copy :: "'f option \<Rightarrow> 'f \<Rightarrow> 'f option"
  plif_eeg_run_subtract_filter :: "real \<Rightarrow> 'f \<Rightarrow> real \<times> 'f"
  plif_eeg_subtract_filter_state_copy :: "'f option \<Rightarrow> 'f \<Rightarrow> 'f option"
  reset_ecg_filter :: "'f \<Rightarrow> 'f"
  run_ecg_filter :: "real \<Rightarrow> 'f \<Rightarrow> real \<times> 'f"
  ecg_filter_save_buf :: "'f \<Rightarrow> 'f"
  kiss_fftr :: "real list \<Rightarrow> (real \<times> real) list"
  dblcmp :: "real \<Rightarrow> real \<Rightarrow> int"
  dsplice :: "nat \<Rightarrow> real \<Rightarrow> real \<Rightarrow> real"

text \<open>\<^verbatim>\<open>signalcomp[i]->edfhdr\<close> dereferenced in the header list \<open>hs\<close>.\<close>

definition hdr_of :: "edfhdrblock list \<Rightarrow> 'f signalcompblock \<Rightarrow> edfhdrblock" where
  "hdr_of hs c = hs ! edfhdr c"

text \<open>The condition of lines 175 to 177: the composition has at least one filter with an
  internal state.\<close>

definition has_filters :: "'f signalcompblock \<Rightarrow> bool" where
  "has_filters c =
    (filter_arr c \<noteq> [] \<or> spike_filter c \<noteq> None \<or> ravg_filter c \<noteq> [] \<or> fidfilter c \<noteq> []
     \<or> fir_filter c \<noteq> [] \<or> plif_ecg_filter c \<noteq> None \<or> plif_eeg_filter c \<noteq> None
     \<or> ecg_filter c \<noteq> None \<or> zratio_filter c \<noteq> None)"


section \<open>setup\_viewbuf: the warm-up duration (lines 62 to 186)\<close>

definition raise_pre_time :: "real \<Rightarrow> real \<Rightarrow> real" where
  "raise_pre_time pre_time v = (if pre_time < v then v else pre_time)"

text \<open>
  One round of the loop of lines 64 to 169 for the composition \<open>c\<close>: the new value of
  \<open>pre_time\<close>. (The flag \<open>hasprefilter\<close> is set in this round exactly when \<open>has_filters c\<close>
  holds; the moving-average filters are reset in the same round, see \<open>reset_ravg_filters\<close>.)
\<close>

definition comp_pre_time :: "'f viewbuf_lib \<Rightarrow> real \<Rightarrow> 'f signalcompblock \<Rightarrow> real" where
  "comp_pre_time lib pre_time c =
    (let p1 = foldl (\<lambda>p flt. raise_pre_time p (d_div 1.0 (cutoff_frequency flt))) pre_time (filter_arr c);
         p2 = (if spike_filter c \<noteq> None then raise_pre_time p1 5.0 else p1);
         p3 = (if plif_ecg_filter c \<noteq> None then raise_pre_time p2 2.0 else p2);
         p4 = (if plif_eeg_filter c \<noteq> None then raise_pre_time p3 1.0 else p3);
         p5 = foldl (\<lambda>p r. raise_pre_time p
                       (d_div (d_of_int (ravg_size r + 3)) (sf_f (edfparam_0 c)))) p4 (ravg_filter c);
         p6 = foldl (\<lambda>p r. raise_pre_time p
                       (d_div (d_of_int (fir_filter_size lib r + 3)) (sf_f (edfparam_0 c)))) p5 (fir_filter c);
         p7 = (if ecg_filter c \<noteq> None then raise_pre_time p6 10.0 else p6);
         p8 = (if zratio_filter c \<noteq> None then raise_pre_time p7 4.0 else p7)
     in foldl (\<lambda>p d. raise_pre_time p
                 (d_div (d_mul 2.0 (d_of_int (fidfilter_order d))) (fidfilter_freq d))) p8 (fidfilter c))"

definition reset_ravg_filters :: "'f viewbuf_lib \<Rightarrow> 'f signalcompblock \<Rightarrow> 'f signalcompblock" where
  "reset_ravg_filters lib c = c \<lparr> ravg_filter := map (reset_ravg_filter lib 0) (ravg_filter c) \<rparr>"

text \<open>Lines 179 to 184 for one composition with filters: the warm-up time of its recording
  is the product of \<open>pre_time\<close> and \<^verbatim>\<open>TIME_FIXP_SCALING\<close> in doubles, truncated to
  \<^verbatim>\<open>long long\<close>, and not more than the view time, and not negative then.\<close>

definition set_prefiltertime :: "real \<Rightarrow> edfhdrblock list \<Rightarrow> 'f signalcompblock \<Rightarrow> edfhdrblock list" where
  "set_prefiltertime pre_time hs c =
    (if has_filters c then
       (let h = hdr_of hs c;
            p = c_longlong (d_mul pre_time (d_of_int TIME_FIXP_SCALING));
            p1 = (if p > viewtime h then (if viewtime h < 0 then 0 else viewtime h) else p)
        in hs [edfhdr c := h \<lparr> prefiltertime := p1 \<rparr>])
     else hs)"

text \<open>Lines 62 to 186: all warm-up times are cleared, \<open>pre_time\<close> is the largest
  requirement of any filter of any composition, and every recording with a filtered
  composition gets its warm-up time.\<close>

definition calc_prefiltertimes :: "'f viewbuf_lib \<Rightarrow> 'f mainwindow \<Rightarrow> 'f mainwindow" where
  "calc_prefiltertimes lib s =
    (let hs0 = map (\<lambda>h. h \<lparr> prefiltertime := 0 \<rparr>) (edfheaderlist s);
         pre_time = foldl (comp_pre_time lib) 0.0 (signalcomp s);
         cs = map (reset_ravg_filters lib) (signalcomp s)
     in s \<lparr> edfheaderlist := (if list_ex has_filters cs
                                then foldl (set_prefiltertime pre_time) hs0 cs else hs0),
            signalcomp := cs \<rparr>)"

section \<open>setup\_viewbuf: sharing the buffer between compositions of one file\<close>

text \<open>The search of lines 220 to 230 (and 313, 631, 761): the first earlier composition
  with the same file handle.\<close>

definition same_file_before :: "edfhdrblock list \<Rightarrow> 'f signalcompblock list \<Rightarrow> nat \<Rightarrow> nat option" where
  "same_file_before hs cs i =
    find (\<lambda>j. file_hdl (hdr_of hs (cs ! i)) = file_hdl (hdr_of hs (cs ! j))) [0..<i]"


section \<open>setup\_viewbuf: planning the warm-up buffer (lines 188 to 238)\<close>

definition plan_prefilter_comp :: "edfhdrblock list \<Rightarrow> 'f signalcompblock \<Rightarrow> 'f signalcompblock" where
  "plan_prefilter_comp hs c =
    (let h = hdr_of hs c;
         d = long_data_record_duration h;
         recs = (if prefiltertime h \<noteq> 0
                 then u64 ((viewtime h sdiv d) - ((viewtime h - prefiltertime h) sdiv d) + 1)
                 else 0)
     in c \<lparr> records_in_viewbuf := recs,
            viewbufsize := u64 (recs * recordsize h),
            samples_in_prefilterbuf :=
              (if prefiltertime h \<noteq> 0
               then (recs - 1) * smp_per_record (edfparam_0 c)
                    + c_int (d_mul (d_div (d_of_int (viewtime h smod d)) (d_of_int d))
                               (d_of_int (smp_per_record (edfparam_0 c))))
               else 0) \<rparr>)"



section \<open>setup\_viewbuf: allocation and the failure exits\<close>

text \<open>
  The common shape of the failure exits: the live stream is stopped, the message is shown,
  \<^verbatim>\<open>remove_all_signals\<close> is called and the method returns. Nothing is handed back to the
  caller (the method is \<^verbatim>\<open>void\<close>).
\<close>

definition fail_exit :: "'f viewbuf_lib \<Rightarrow> string \<Rightarrow> 'f mainwindow \<Rightarrow> 'f mainwindow" where
  "fail_exit lib msg s =
    remove_all_signals lib (s \<lparr> live_stream_active := False, messages := messages s @ [msg] \<rparr>)"

definition clamp_pagetime :: "'f mainwindow \<Rightarrow> 'f mainwindow" where
  "clamp_pagetime s =
    (if pagetime s > TIME_FIXP_SCALING then s \<lparr> pagetime := TIME_FIXP_SCALING \<rparr> else s)"

definition free_viewbuf :: "'f mainwindow \<Rightarrow> 'f mainwindow" where
  "free_viewbuf s =
    (if viewbuf s \<noteq> None then s \<lparr> viewbuf := None, totalviewbufsize_bytes := 0 \<rparr> else s)"

definition buffer_ceiling :: "'f viewbuf_lib \<Rightarrow> int" where
  "buffer_ceiling lib = (if lp64 lib then 4294967295 * 32 else 4294967295)"

text \<open>The messages are recorded by their first line.\<close>

definition msg_limit :: "'f viewbuf_lib \<Rightarrow> string" where
  "msg_limit lib =
    (if lp64 lib then ''Somehow you hit the memory limit...''
     else ''You have hit the memory limit of 4.2GB.'')"




section \<open>setup\_viewbuf: file and buffer access\<close>

text \<open>
  \<^verbatim>\<open>fseeko\<close> to \<open>pos\<close> followed by \<^verbatim>\<open>fread\<close> of one item of \<open>n\<close> bytes on a file with the
  contents \<open>bytes\<close>: the bytes transferred, and whether \<^verbatim>\<open>fread\<close> returns 1, which it does
  when the item is not empty and lies inside the file.
\<close>

definition fread_item :: "byte list \<Rightarrow> int \<Rightarrow> int \<Rightarrow> bool \<times> byte list" where
  "fread_item bytes pos n =
    (let got = take (nat n) (drop (nat pos) bytes)
     in (0 < n \<and> 0 \<le> pos \<and> int (length got) = n, got))"

definition mem_write :: "mem \<Rightarrow> int \<Rightarrow> byte list \<Rightarrow> mem" where
  "mem_write buf pos bytes =
    take (length buf) (take (nat pos) buf @ map Some bytes @ drop (nat pos + length bytes) buf)"

definition mem_zero :: "mem \<Rightarrow> int \<Rightarrow> int \<Rightarrow> mem" where
  "mem_zero buf pos n =
    take (length buf) (take (nat pos) buf @ replicate (nat n) (Some 0) @ drop (nat pos + nat n) buf)"

text \<open>The read of lines 293 to 306 (and 746 to 754): the bytes go to the buffer at \<open>bufpos\<close>,
  the call is recorded, and the flag tells whether \<^verbatim>\<open>fread\<close> returned 1.\<close>

definition read_into_viewbuf ::
  "nat \<Rightarrow> int \<Rightarrow> int \<Rightarrow> int \<Rightarrow> 'f mainwindow \<Rightarrow> bool \<times> 'f mainwindow" where
  "read_into_viewbuf hdl pos bufpos n s =
    (case fread_item (files s hdl) pos n of
      (ok, got) \<Rightarrow>
        (ok, s \<lparr> viewbuf := map_option (\<lambda>buf. mem_write buf bufpos got) (viewbuf s),
                 freads := freads s @ [(hdl, pos, n)] \<rparr>))"

definition zero_viewbuf :: "int \<Rightarrow> int \<Rightarrow> 'f mainwindow \<Rightarrow> 'f mainwindow" where
  "zero_viewbuf bufpos n s =
    s \<lparr> viewbuf := map_option (\<lambda>buf. mem_zero buf bufpos n) (viewbuf s) \<rparr>"


section \<open>setup\_viewbuf: reading the warm-up records (lines 283 to 347)\<close>

definition msg_read_error :: "nat \<Rightarrow> string" where
  "msg_read_error n =
    (if n = 2 then ''A read error occurred. 2''
     else if n = 3 then ''A read error occurred. 3''
     else if n = 5 then ''A read error occurred. 5''
     else ''A read error occurred. 6'')"

text \<open>The test of lines 311 to 320 (and 759 to 768): an earlier composition has the same
  file handle, so that this one shares its part of the buffer.\<close>

definition is_shared :: "edfhdrblock list \<Rightarrow> 'f signalcompblock list \<Rightarrow> nat \<Rightarrow> bool" where
  "is_shared hs cs i = (i \<noteq> 0 \<and> same_file_before hs cs i \<noteq> None)"

text \<open>The first record of the warm-up buffer, and the number of bytes to read: the size of
  the buffer part, shortened to the records that exist from that record on.\<close>

definition prefilter_first_record :: "edfhdrblock \<Rightarrow> int" where
  "prefilter_first_record h = (viewtime h - prefiltertime h) sdiv long_data_record_duration h"

definition prefilter_readsize :: "edfhdrblock \<Rightarrow> 'f signalcompblock \<Rightarrow> int" where
  "prefilter_readsize h c =
    (let avail = u64 ((datarecords h - prefilter_first_record h) * recordsize h)
     in if viewbufsize c > avail then avail else viewbufsize c)"

text \<open>
  One round of the loop for composition \<open>i\<close>. Only the first composition of a file
  computes \<open>prefilter_starttime\<close> and reads. \<open>Inl\<close> is the state in which the method
  returns after a failed read.
\<close>

definition prefilter_read_comp ::
  "'f viewbuf_lib \<Rightarrow> nat \<Rightarrow> 'f mainwindow \<Rightarrow> 'f mainwindow + 'f mainwindow" where
  "prefilter_read_comp lib i s =
    (let c = signalcomp s ! i;
         h = hdr_of (edfheaderlist s) c
     in if is_shared (edfheaderlist s) (signalcomp s) i then Inr s
        else
          let recs = prefilter_first_record h;
              c1 = c \<lparr> prefilter_starttime := recs * long_data_record_duration h \<rparr>
          in if viewbufsize c > 0 \<and> recs < datarecords h then
               (case read_into_viewbuf (file_hdl h) (hdrsize h + recs * recordsize h)
                       (viewbufoffset c) (prefilter_readsize h c)
                       (s \<lparr> signalcomp := (signalcomp s)
                               [i := c1 \<lparr> viewbufsize := prefilter_readsize h c \<rparr>] \<rparr>) of
                 (ok, s2) \<Rightarrow>
                   if ok then Inr s2
                   else Inl (fail_exit lib (msg_read_error (if i = 0 then 2 else 3)) s2))
             else Inr (s \<lparr> signalcomp := (signalcomp s) [i := c1] \<rparr>))"

fun prefilter_reads ::
  "'f viewbuf_lib \<Rightarrow> nat list \<Rightarrow> 'f mainwindow \<Rightarrow> 'f mainwindow + 'f mainwindow" where
  "prefilter_reads lib [] s = Inr s"
| "prefilter_reads lib (i # is) s =
    (case prefilter_read_comp lib i s of
      Inl e \<Rightarrow> Inl e
    | Inr s1 \<Rightarrow> prefilter_reads lib is s1)"

section \<open>setup\_viewbuf: the reset sample of the Z-ratio filter (lines 349 to 385)\<close>

definition set_reset_sample :: "edfhdrblock list \<Rightarrow> 'f signalcompblock \<Rightarrow> 'f signalcompblock" where
  "set_reset_sample hs c =
    (if zratio_filter c \<noteq> None then
       (let d = long_data_record_duration (hdr_of hs c);
            l_temp = prefilter_starttime c smod (TIME_FIXP_SCALING * 2)
        in if l_temp \<noteq> 0 then
             (let temp = (TIME_FIXP_SCALING * 2) - l_temp
              in c \<lparr> prefilter_reset_sample :=
                       (temp sdiv d) * smp_per_record (edfparam_0 c)
                       + c_int (d_mul (d_div (d_of_int (temp smod d)) (d_of_int d))
                                  (d_of_int (smp_per_record (edfparam_0 c)))) \<rparr>)
           else c \<lparr> prefilter_reset_sample := 0 \<rparr>)
     else c)"

section \<open>setup\_viewbuf: running the filters over the warm-up samples (lines 387 to 509)\<close>

definition byte_at :: "'f viewbuf_lib \<Rightarrow> mem option \<Rightarrow> int \<Rightarrow> int" where
  "byte_at lib vb n =
    (case vb of
      None \<Rightarrow> uint (uninit_byte lib (nat n))
    | Some buf \<Rightarrow>
        if 0 \<le> n \<and> nat n < length buf
        then (case buf ! nat n of Some b \<Rightarrow> uint b | None \<Rightarrow> uint (uninit_byte lib (nat n)))
        else uint (uninit_byte lib (nat n)))"

text \<open>A 24-bit little-endian sample, sign-extended through the fourth byte of the union,
  and a 16-bit little-endian sample read as \<^verbatim>\<open>short\<close>.\<close>

definition bdf_sample :: "'f viewbuf_lib \<Rightarrow> mem option \<Rightarrow> int \<Rightarrow> int" where
  "bdf_sample lib vb pos =
    (let v = byte_at lib vb pos + 256 * byte_at lib vb (pos + 1) + 65536 * byte_at lib vb (pos + 2)
     in if byte_at lib vb (pos + 2) \<ge> 128 then v - 16777216 else v)"

definition edf_sample :: "'f viewbuf_lib \<Rightarrow> mem option \<Rightarrow> int \<Rightarrow> int" where
  "edf_sample lib vb pos =
    (let v = byte_at lib vb pos + 256 * byte_at lib vb (pos + 1)
     in if v \<ge> 32768 then v - 65536 else v)"

text \<open>
  The body of the loop over the signals of a composition (lines 399 to 441) for sample
  \<open>smp\<close>: the loop state is \<open>dig_value\<close> and \<open>d_temp\<close>.
\<close>

definition add_signal ::
  "'f viewbuf_lib \<Rightarrow> mem option \<Rightarrow> edfhdrblock \<Rightarrow> 'f signalcompblock \<Rightarrow> int \<Rightarrow> real \<times> real \<Rightarrow> nat
   \<Rightarrow> real \<times> real" where
  "add_signal lib vb h c smp acc k =
    (case acc of (dig_value, d_temp) \<Rightarrow>
      let p = edfparam h ! nat (edfsignal c ! k);
          base = viewbufoffset c + recordsize h * (smp sdiv smp_per_record p) + datrec_offset p;
          d1 = (if bdf h
                then d_of_int (bdf_sample lib vb (base + (smp smod smp_per_record p) * 3))
                else d_temp);
          d2 = (if edf h
                then d_of_int (edf_sample lib vb (base + 2 * (smp smod smp_per_record p)))
                else d1);
          d3 = d_mul (d_add d2 (offset p)) (factor c ! k)
      in (d_add dig_value d3, d3))"

fun run_chain :: "(real \<Rightarrow> 'a \<Rightarrow> real \<times> 'a) \<Rightarrow> real \<Rightarrow> 'a list \<Rightarrow> real \<times> 'a list" where
  "run_chain f v [] = (v, [])"
| "run_chain f v (x # xs) =
    (case f v x of
      (v1, x1) \<Rightarrow> (case run_chain f v1 xs of (v2, xs1) \<Rightarrow> (v2, x1 # xs1)))"

fun run_opt :: "(real \<Rightarrow> 'a \<Rightarrow> real \<times> 'a) \<Rightarrow> real \<Rightarrow> 'a option \<Rightarrow> real \<times> 'a option" where
  "run_opt f v None = (v, None)"
| "run_opt f v (Some x) = (case f v x of (v1, x1) \<Rightarrow> (v1, Some x1))"

definition run_fid :: "'f viewbuf_lib \<Rightarrow> real \<Rightarrow> 'f fid_filt \<Rightarrow> real \<times> 'f fid_filt" where
  "run_fid lib v d = (case fidfuncp lib (fidbuf d) v of (v1, b) \<Rightarrow> (v1, d \<lparr> fidbuf := b \<rparr>))"

text \<open>
  One round of the loop over the warm-up samples (lines 393 to 508) for sample \<open>smp\<close>, in
  two parts. The first part (lines 395 to 487) adds up the signals and runs the filters
  in front of the ECG filter: it gives the composition with the new filter states, the new
  \<open>d_temp\<close>, and the value that reaches the ECG filter.
\<close>

definition filters_before_ecg ::
  "'f viewbuf_lib \<Rightarrow> mem option \<Rightarrow> edfhdrblock \<Rightarrow> 'f signalcompblock \<times> real \<Rightarrow> int
   \<Rightarrow> 'f signalcompblock \<times> real \<times> real" where
  "filters_before_ecg lib vb h cd smp =
    (case cd of (c, d_temp) \<Rightarrow>
     (case foldl (add_signal lib vb h c smp) (0.0, d_temp) [0..<length (edfsignal c)] of
       (dig_value, d_temp1) \<Rightarrow>
     (case run_opt (run_spike_filter lib) dig_value (spike_filter c) of (v1, spike1) \<Rightarrow>
     (case run_chain run_math_func v1 (math_func_before c) of (v2, before1) \<Rightarrow>
     (case run_chain (first_order_filter lib) v2 (filter_arr c) of (v3, filter1) \<Rightarrow>
     (case run_chain (run_ravg_filter lib) v3 (ravg_filter c) of (v4, ravg1) \<Rightarrow>
     (case run_chain (run_fid lib) v4 (fidfilter c) of (v5, fid1) \<Rightarrow>
     (case run_chain (run_fir_filter lib) v5 (fir_filter c) of (v6, fir1) \<Rightarrow>
     (case run_chain run_math_func v6 (math_func_after c) of (v7, after1) \<Rightarrow>
     (case run_opt (plif_ecg_run_subtract_filter lib) v7 (plif_ecg_filter c) of (v8, plif_ecg1) \<Rightarrow>
     (case run_opt (plif_eeg_run_subtract_filter lib) v8 (plif_eeg_filter c) of (v9, plif_eeg1) \<Rightarrow>
       (c \<lparr> spike_filter := spike1, math_func_before := before1, filter_arr := filter1,
            ravg_filter := ravg1, fidfilter := fid1, fir_filter := fir1,
            math_func_after := after1, plif_ecg_filter := plif_ecg1,
            plif_eeg_filter := plif_eeg1 \<rparr>,
        d_temp1, v9))))))))))))"




section \<open>setup\_viewbuf: saving the filter states (lines 511 to 561)\<close>



section \<open>setup\_viewbuf: planning the visible window (lines 564 to 649)\<close>

text \<open>Lines 568 to 620 for one composition: the number of records that cover the page,
  and the sample bookkeeping for the renderer.\<close>

definition plan_view_comp :: "int \<Rightarrow> edfhdrblock list \<Rightarrow> 'f signalcompblock \<Rightarrow> 'f signalcompblock" where
  "plan_view_comp ptime hs c =
    (let h = hdr_of hs c;
         d = long_data_record_duration h;
         spr = smp_per_record (edfparam_0 c);
         recs = (if viewtime h \<ge> 0
                 then u64 (((ptime + (viewtime h smod d)) sdiv d) + 1)
                 else u64 (((ptime + ((- viewtime h) smod d)) sdiv d) + 1));
         part = (if viewtime h \<ge> 0
                 then d_mul (d_div (d_of_int (viewtime h smod d)) (d_of_int d)) (d_of_int spr)
                 else d_mul (d_div (d_of_int ((- viewtime h) smod d)) (d_of_int d)) (d_of_int spr));
         part1 = d_sub part (d_of_int (c_int part))
     in c \<lparr> records_in_viewbuf := recs,
            viewbufsize := u64 (recs * recordsize h),
            samples_on_screen :=
              c_int (d_mul (d_div (d_of_int ptime) (d_of_int d)) (d_of_int spr)),
            sample_start :=
              (if viewtime h < 0
               then (let start = c_longlong
                                   (d_add (d_mul (d_div (d_of_int (- viewtime h)) (d_of_int d))
                                             (d_of_int spr)) 0.5)
                     in if start > 2147483647 then 2147483647 else start)
               else 0),
            sample_timeoffset := (if viewtime h \<ge> 0 then c_int part else 0),
            sample_timeoffset_part :=
              (if viewtime h \<ge> 0 then part1
               else - (if part1 \<ge> 0.5 then d_sub part1 1 else part1)) \<rparr>)"



section \<open>setup\_viewbuf: reading the visible window (lines 698 to 839)\<close>

text \<open>
  The quantities of one round of the loop: the first record of the page, the number \<open>dif\<close>
  of records from there to the end of the recording, the size of the buffer part, the
  number of bytes to read, and the value given to \<open>sample_stop\<close> before \<open>sample_start\<close>
  is added.
\<close>

definition view_first_record :: "edfhdrblock \<Rightarrow> int" where
  "view_first_record h =
    (if viewtime h \<ge> 0 then viewtime h sdiv long_data_record_duration h else 0)"

definition view_dif :: "edfhdrblock \<Rightarrow> int" where
  "view_dif h = datarecords h - view_first_record h"

definition view_whole :: "edfhdrblock \<Rightarrow> 'f signalcompblock \<Rightarrow> int" where
  "view_whole h c = u64 (records_in_viewbuf c * recordsize h)"

definition view_readsize :: "edfhdrblock \<Rightarrow> 'f signalcompblock \<Rightarrow> int" where
  "view_readsize h c =
    (if view_dif h < records_in_viewbuf c then u64 (view_dif h * recordsize h)
     else view_whole h c)"

definition view_sample_stop :: "edfhdrblock \<Rightarrow> 'f signalcompblock \<Rightarrow> int" where
  "view_sample_stop h c =
    (if view_dif h \<le> 0 then 0
     else if view_dif h < records_in_viewbuf c
     then view_dif h * smp_per_record (edfparam_0 c) - sample_timeoffset c
     else samples_on_screen c)"

text \<open>The \<^verbatim>\<open>memset\<close> calls: the whole part of the buffer when the page starts at or behind
  the end of the recording, the part behind the last record when the page ends behind it.\<close>

definition view_clear_tail :: "edfhdrblock \<Rightarrow> 'f signalcompblock \<Rightarrow> 'f mainwindow \<Rightarrow> 'f mainwindow" where
  "view_clear_tail h c s =
    (if view_dif h \<le> 0 then zero_viewbuf (viewbufoffset c) (view_whole h c) s
     else if view_dif h < records_in_viewbuf c
     then zero_viewbuf (viewbufoffset c + view_readsize h c)
            (u64 (view_whole h c - view_readsize h c)) s
     else s)"

text \<open>Line 838.\<close>

definition add_sample_start :: "nat \<Rightarrow> 'f mainwindow \<Rightarrow> 'f mainwindow" where
  "add_sample_start i s =
    s \<lparr> signalcomp := (signalcomp s)
          [i := (signalcomp s ! i)
             \<lparr> sample_stop := sample_stop (signalcomp s ! i) + sample_start (signalcomp s ! i) \<rparr>] \<rparr>"

text \<open>
  One round of the loop for composition \<open>i\<close>. Only the first composition of a file
  touches the buffer: it clears the part of its region that lies behind the last record
  and reads the rest. \<open>Inl\<close> is the state in which the method returns after a failed
  read.
\<close>

definition view_read_comp ::
  "'f viewbuf_lib \<Rightarrow> nat \<Rightarrow> 'f mainwindow \<Rightarrow> 'f mainwindow + 'f mainwindow" where
  "view_read_comp lib i s =
    (let c = signalcomp s ! i;
         h = hdr_of (edfheaderlist s) c;
         skip = is_shared (edfheaderlist s) (signalcomp s) i;
         s1 = (if skip then s else view_clear_tail h c s);
         s2 = s1 \<lparr> signalcomp := (signalcomp s1) [i := c \<lparr> sample_stop := view_sample_stop h c \<rparr>] \<rparr>
     in if skip \<or> view_dif h \<le> 0 then Inr (add_sample_start i s2)
        else
          (case read_into_viewbuf (file_hdl h) (hdrsize h + view_first_record h * recordsize h)
                  (viewbufoffset c) (view_readsize h c) s2 of
            (ok, s3) \<Rightarrow>
              if ok then Inr (add_sample_start i s3)
              else Inl (fail_exit lib (msg_read_error (if i = 0 then 5 else 6)) s3)))"


section \<open>setup\_viewbuf: the whole method up to line 839\<close>







section \<open>Stand-ins for running the model on concrete inputs\<close>

text \<open>An exact three-way comparison in the place of \<^verbatim>\<open>dblcmp\<close>.\<close>

definition dblcmp_exact :: "real \<Rightarrow> real \<Rightarrow> int" where
  "dblcmp_exact a b = (if a < b then - 1 else if b < a then 1 else 0)"

text \<open>
  A transform in the place of the FFT that makes the result depend on two samples of the
  block only: bin 1 (in the delta band of the example filter) carries sample 0, bin 30
  (in the beta band) carries sample 30, and all other bins are empty.
\<close>

definition fft_probe :: "real list \<Rightarrow> (real \<times> real) list" where
  "fft_probe xs = (replicate 101 (0, 0)) [1 := (xs ! 0, 0), 30 := (xs ! 30, 0)]"

text \<open>The filter that \<^verbatim>\<open>create_zratio_filter\<close> returns for 100 samples per record of one
  second, a cross-over frequency of 7.5 Hz and a bit value of 1.\<close>

definition zr_example :: "(nat \<Rightarrow> real) \<Rightarrow> (nat \<Rightarrow> real) \<Rightarrow> zratiofiltset" where
  "zr_example junk_in junk_bu =
    \<lparr> crossoverfreq = 15 / 2, bitvalue = 1, dftblocksize = 200, samplefreq = 100,
      fft_outputbufsize = 100, freqstep = 1 / 2, f0 = 1, f1 = 6, f2 = 15, f3 = 24, f4 = 50,
      fft_inputbuf = map junk_in [0..<200], fft_inputbuf_bu = map junk_bu [0..<200],
      fft_outputbuf = replicate 100 0, smpls_in_inputbuf = 0, smpls_in_inputbuf_bu = 0,
      zratio_value = 0, zratio_value_bu = 0 \<rparr>"

text \<open>
  A checkpoint scenario: the filter is reset and warmed up with 100 samples of value 1,
  its state is saved, and 150 samples of value 2 are filtered (the first pass); then the
  saved state is restored and the same 150 samples are filtered again (the second pass).
\<close>

definition zr_checkpoint ::
  "(nat \<Rightarrow> real \<Rightarrow> real \<Rightarrow> real) \<Rightarrow> (real list \<Rightarrow> (real \<times> real) list) \<Rightarrow> (real \<Rightarrow> real \<Rightarrow> int)
   \<Rightarrow> (nat \<Rightarrow> real) \<Rightarrow> (nat \<Rightarrow> real) \<Rightarrow> zratiofiltset" where
  "zr_checkpoint spl fft cmp junk_in junk_bu =
    zratio_filter_save_buf spl
      (snd (zratio_feed fft cmp (replicate 100 1)
             (reset_zratio_filter (zr_example junk_in junk_bu))))"

definition zr_first_pass ::
  "(nat \<Rightarrow> real \<Rightarrow> real \<Rightarrow> real) \<Rightarrow> (real list \<Rightarrow> (real \<times> real) list) \<Rightarrow> (real \<Rightarrow> real \<Rightarrow> int)
   \<Rightarrow> (nat \<Rightarrow> real) \<Rightarrow> (nat \<Rightarrow> real) \<Rightarrow> real list \<times> zratiofiltset" where
  "zr_first_pass spl fft cmp junk_in junk_bu =
    zratio_feed fft cmp (replicate 150 2) (zr_checkpoint spl fft cmp junk_in junk_bu)"

definition zr_second_pass ::
  "(nat \<Rightarrow> real \<Rightarrow> real \<Rightarrow> real) \<Rightarrow> (real list \<Rightarrow> (real \<times> real) list) \<Rightarrow> (real \<Rightarrow> real \<Rightarrow> int)
   \<Rightarrow> (nat \<Rightarrow> real) \<Rightarrow> (nat \<Rightarrow> real) \<Rightarrow> real list \<times> zratiofiltset" where
  "zr_second_pass spl fft cmp junk_in junk_bu =
    zratio_feed fft cmp (replicate 150 2)
      (zratio_filter_restore_buf spl (snd (zr_first_pass spl fft cmp junk_in junk_bu)))"

section \<open>Auxiliary notions for the proofs\<close>

text \<open>The power of one bin, and the four band powers after \<open>n\<close> rounds of the loop of
  \<^verbatim>\<open>run_zratio_filter\<close>.\<close>

definition bin_power :: "zratiofiltset \<Rightarrow> (real \<times> real) list \<Rightarrow> nat \<Rightarrow> real" where
  "bin_power st spec n =
     (fst (spec ! n) * fst (spec ! n) + snd (spec ! n) * snd (spec ! n))
       / real_of_int (fft_outputbufsize st)"

definition band_sums :: "zratiofiltset \<Rightarrow> (real \<times> real) list \<Rightarrow> nat \<Rightarrow> real \<times> real \<times> real \<times> real" where
  "band_sums st spec n =
    ((\<Sum>i<n. if f0 st \<le> int i \<and> int i < f1 st then bin_power st spec i else 0),
     (\<Sum>i<n. if f1 st \<le> int i \<and> int i < f2 st then bin_power st spec i else 0),
     (\<Sum>i<n. if f2 st \<le> int i \<and> int i < f3 st then bin_power st spec i else 0),
     (\<Sum>i<n. if f3 st \<le> int i \<and> int i \<le> f4 st then bin_power st spec i else 0))"

section \<open>Example inputs\<close>

text \<open>A composition of one signal of the recording with header index \<open>hi\<close>, with factor 1
  and without any filter; the per-frame fields are 0.\<close>

definition plain_comp :: "nat \<Rightarrow> edfparamblock \<Rightarrow> 'f signalcompblock" where
  "plain_comp hi p =
    \<lparr> edfhdr = hi, edfsignal = [0], factor = [1], edfparam_0 = p,
      filter_arr = [], filterpreset_a = [], filterpreset_b = [],
      spike_filter = None, math_func_before = [], math_func_after = [],
      ravg_filter = [], fidfilter = [], fir_filter = [],
      plif_ecg_filter = None, plif_ecg_filter_sav = None,
      plif_eeg_filter = None, plif_eeg_filter_sav = None,
      ecg_filter = None, zratio_filter = None,
      viewbufsize = 0, viewbufoffset = 0, records_in_viewbuf = 0, samples_on_screen = 0,
      samples_in_prefilterbuf = 0, sample_start = 0, sample_stop = 0, sample_timeoffset = 0,
      sample_timeoffset_part = 0, prefilter_starttime = 0, prefilter_reset_sample = 0 \<rparr>"

text \<open>
  Stand-ins for the functions that are not part of the sources. A filter state is a
  number; the filters pass every sample through and keep their state, except the ECG
  filter, which counts the samples it has seen since its reset. The allocator always
  succeeds, and \<^verbatim>\<open>remove_all_signals\<close> empties the list of compositions and releases the
  buffer.
\<close>

definition remove_all_signals_standin :: "'f mainwindow \<Rightarrow> 'f mainwindow" where
  "remove_all_signals_standin s = s \<lparr> signalcomp := [], viewbuf := None, totalviewbufsize_bytes := 0 \<rparr>"

definition lib_standin :: "nat viewbuf_lib" where
  "lib_standin =
    \<lparr> lp64 = True, malloc_ok = (\<lambda>n. True), uninit_byte = (\<lambda>n. 0),
      remove_all_signals = remove_all_signals_standin,
      run_spike_filter = Pair, spike_filter_save_buf = id,
      first_order_filter = Pair,
      reset_ravg_filter = (\<lambda>v r. r), run_ravg_filter = Pair, ravg_filter_save_buf = id,
      fidfuncp = (\<lambda>b v. (v, b)),
      fir_filter_size = (\<lambda>r. 0), run_fir_filter = Pair, fir_filter_save_buf = id,
      plif_ecg_run_subtract_filter = Pair,
      plif_ecg_subtract_filter_state_copy = (\<lambda>dst src. Some src),
      plif_eeg_run_subtract_filter = Pair,
      plif_eeg_subtract_filter_state_copy = (\<lambda>dst src. Some src),
      reset_ecg_filter = (\<lambda>e. 0), run_ecg_filter = (\<lambda>v e. (v, Suc e)), ecg_filter_save_buf = id,
      kiss_fftr = fft_probe, dblcmp = dblcmp_exact, dsplice = (\<lambda>n a b. a) \<rparr>"

text \<open>A recording of 100 records of one second with one signal of 256 samples of two bytes
  per record, with a header of 512 bytes, viewed at \<open>vt\<close>.\<close>

definition hdr_example :: "nat \<Rightarrow> int \<Rightarrow> edfhdrblock" where
  "hdr_example hdl vt =
    \<lparr> file_hdl = hdl, edf = True, bdf = False, hdrsize = 512, recordsize = 512,
      datarecords = 100, long_data_record_duration = 10000000, viewtime = vt,
      prefiltertime = 0,
      edfparam = [\<lparr> smp_per_record = 256, datrec_offset = 0, offset = 0, sf_f = 256 \<rparr>] \<rparr>"

definition param_example :: edfparamblock where
  "param_example = \<lparr> smp_per_record = 256, datrec_offset = 0, offset = 0, sf_f = 256 \<rparr>"

text \<open>The main window with the given recordings and compositions, a page of \<open>pt\<close> ticks,
  no buffer, and files with the contents \<open>fs\<close>.\<close>

definition window_example ::
  "edfhdrblock list \<Rightarrow> 'f signalcompblock list \<Rightarrow> int \<Rightarrow> (nat \<Rightarrow> byte list) \<Rightarrow> 'f mainwindow" where
  "window_example hs cs pt fs =
    \<lparr> edfheaderlist = hs, signalcomp = cs, viewbuf = None, totalviewbufsize_bytes = 0,
      pagetime = pt, live_stream_active = False, messages = [], files = fs, freads = [] \<rparr>"

text \<open>A first-order filter with the given cut-off frequency.\<close>

definition first_order_example :: "real \<Rightarrow> nat first_order_filt" where
  "first_order_example fc = \<lparr> cutoff_frequency = fc, old_input = 0, old_output = 0, fo_rest = 0 \<rparr>"

text \<open>The composition has exactly one filter, the first-order filter \<open>flt\<close>.\<close>

definition only_first_order :: "'f signalcompblock \<Rightarrow> 'f first_order_filt \<Rightarrow> bool" where
  "only_first_order c flt =
    (filter_arr c = [flt] \<and> spike_filter c = None \<and> ravg_filter c = [] \<and> fidfilter c = []
     \<and> fir_filter c = [] \<and> plif_ecg_filter c = None \<and> plif_eeg_filter c = None
     \<and> ecg_filter c = None \<and> zratio_filter c = None)"

text \<open>One composition with a first-order filter of 3 Hz on the example recording, viewed
  at 10 seconds with a page of one second.\<close>

definition lowpass_comp_example :: "nat signalcompblock" where
  "lowpass_comp_example = (plain_comp 0 param_example) \<lparr> filter_arr := [first_order_example 3] \<rparr>"

definition lowpass_window_example :: "nat mainwindow" where
  "lowpass_window_example =
    window_example [hdr_example 1 100000000] [lowpass_comp_example] 10000000 (\<lambda>h. [])"

text \<open>The same recording viewed at 20 seconds through a first-order filter whose cut-off
  frequency is the double next to 0.1 Hz.\<close>

definition tenth_hertz :: real where
  "tenth_hertz = 3602879701896397 / 36028797018963968"

definition tenth_hertz_window_example :: "nat mainwindow" where
  "tenth_hertz_window_example =
    window_example [hdr_example 1 200000000]
      [(plain_comp 0 param_example) \<lparr> filter_arr := [first_order_example tenth_hertz] \<rparr>]
      10000000 (\<lambda>h. [])"






text \<open>
  A recording with records of 0.55 seconds and 110 samples per record, viewed at 6.2
  seconds with a warm-up time of 4 seconds, and a composition on it with a Z-ratio filter
  whose warm-up buffer starts at 2.2 seconds.
\<close>

definition param_early_example :: edfparamblock where
  "param_early_example = \<lparr> smp_per_record = 110, datrec_offset = 0, offset = 0, sf_f = 200 \<rparr>"

definition hdr_early_example :: edfhdrblock where
  "hdr_early_example =
    \<lparr> file_hdl = 7, edf = True, bdf = False, hdrsize = 512, recordsize = 220,
      datarecords = 1000, long_data_record_duration = 5500000, viewtime = 62000000,
      prefiltertime = 40000000, edfparam = [param_early_example] \<rparr>"

definition zratio_early_comp_example :: "nat signalcompblock" where
  "zratio_early_comp_example =
    (plain_comp 0 param_early_example)
      \<lparr> zratio_filter :=
          (case create_zratio_filter dblcmp_exact (\<lambda>n. 0) (\<lambda>n. 0) 110 5500000 (15 / 2) 1 of
            Inr r \<Rightarrow> r | Inl f \<Rightarrow> None),
        prefilter_starttime := 22000000 \<rparr>"


text \<open>
  A recording with records of 2,000,000 bytes (one second each) and one composition on
  it without filters. \<open>big_window_example\<close> views it with a page of 2200 seconds;
  the file holds the header and the first two records. \<open>lib32_standin\<close> is the stand-in
  library of a 32-bit build.
\<close>

definition hdr_big_example :: edfhdrblock where
  "hdr_big_example =
    \<lparr> file_hdl = 7, edf = True, bdf = False, hdrsize = 512, recordsize = 2000000,
      datarecords = 100000, long_data_record_duration = 10000000, viewtime = 0,
      prefiltertime = 0, edfparam = [param_example] \<rparr>"


definition lib32_standin :: "nat viewbuf_lib" where
  "lib32_standin = lib_standin \<lparr> lp64 := False \<rparr>"




text \<open>The example recording with a complete file of bytes of value 1, viewed with a page of
  one second at 99.5 seconds, where the page ends half a second behind the recording, and
  at 100.5 seconds, where it starts behind the recording.\<close>

definition tail_window_example :: "nat mainwindow" where
  "tail_window_example =
    window_example [hdr_example 7 995000000] [plain_comp 0 param_example] 10000000
      (\<lambda>h. replicate 51712 1)"

definition end_window_example :: "nat mainwindow" where
  "end_window_example =
    window_example [hdr_example 7 1005000000] [plain_comp 0 param_example] 10000000
      (\<lambda>h. replicate 51712 1)"

text \<open>The stand-in library with a \<^verbatim>\<open>remove_all_signals\<close> that does nothing at all.\<close>

definition lib_keep_standin :: "nat viewbuf_lib" where
  "lib_keep_standin = lib_standin \<lparr> remove_all_signals := (\<lambda>s. s) \<rparr>"

section \<open>Properties of the Z-ratio filter\<close>

lemma run_zratio_filter_below:
  assumes "smpls_in_inputbuf st + 1 < dftblocksize st"
  shows "run_zratio_filter K D x st =
          (zratio_value st / bitvalue st,
           st \<lparr> fft_inputbuf := (fft_inputbuf st)[nat (smpls_in_inputbuf st) := x],
                smpls_in_inputbuf := smpls_in_inputbuf st + 1 \<rparr>)"
  using assms by (simp add: run_zratio_filter_def Let_def)

lemma zratio_bin_bands:
  "snd (zratio_bin st spec (ob, acc) n) = snd (zratio_bin st spec (ob', acc) n)"
  by (cases acc) (simp add: zratio_bin_def Let_def)

lemma foldl_zratio_bin_bands:
  "snd (foldl (zratio_bin st spec) (ob, acc) ns) = snd (foldl (zratio_bin st spec) (ob', acc) ns)"
proof (induction ns arbitrary: ob ob' acc)
  case Nil
  show ?case by simp
next
  case (Cons n ns)
  obtain ob1 acc1 where s1: "zratio_bin st spec (ob, acc) n = (ob1, acc1)"
    by (cases "zratio_bin st spec (ob, acc) n")
  obtain ob2 acc2 where s2: "zratio_bin st spec (ob', acc) n = (ob2, acc2)"
    by (cases "zratio_bin st spec (ob', acc) n")
  have "acc1 = acc2"
    using zratio_bin_bands [of st spec ob acc n ob'] by (simp add: s1 s2)
  then show ?case
    using Cons.IH [of ob1 acc2 ob2] by (simp add: s1 s2)
qed

lemma zratio_bin_params:
  assumes "f0 st = f0 st'" "f1 st = f1 st'" "f2 st = f2 st'" "f3 st = f3 st'" "f4 st = f4 st'"
    "fft_outputbufsize st = fft_outputbufsize st'"
  shows "zratio_bin st = zratio_bin st'"
  using assms by (intro ext) (simp add: zratio_bin_def)

lemma zratio_block_value_snd:
  assumes "f0 st = f0 st'" "f1 st = f1 st'" "f2 st = f2 st'" "f3 st = f3 st'" "f4 st = f4 st'"
    "fft_outputbufsize st = fft_outputbufsize st'"
  shows "snd (zratio_block_value D st spec) = snd (zratio_block_value D st' spec)"
proof -
  have b: "zratio_bin st = zratio_bin st'" by (rule zratio_bin_params [OF assms])
  have "snd (foldl (zratio_bin st' spec) (fft_outputbuf st, 0, 0, 0, 0) [0..<nat (fft_outputbufsize st')])
      = snd (foldl (zratio_bin st' spec) (fft_outputbuf st', 0, 0, 0, 0) [0..<nat (fft_outputbufsize st')])"
    by (rule foldl_zratio_bin_bands)
  then show ?thesis
    by (auto simp add: zratio_block_value_def b assms(6) Let_def split: prod.splits)
qed

lemma zratio_feed_append:
  "zratio_feed K D (xs @ ys) st =
    (fst (zratio_feed K D xs st) @ fst (zratio_feed K D ys (snd (zratio_feed K D xs st))),
     snd (zratio_feed K D ys (snd (zratio_feed K D xs st))))"
  by (induction xs arbitrary: st) (simp_all split: prod.splits)

lemma zratio_feed_below:
  assumes "0 \<le> smpls_in_inputbuf st"
    and "smpls_in_inputbuf st + int (length xs) < dftblocksize st"
    and "length (fft_inputbuf st) = nat (dftblocksize st)"
  shows "zratio_feed K D xs st =
          (replicate (length xs) (zratio_value st / bitvalue st),
           st \<lparr> fft_inputbuf := take (nat (smpls_in_inputbuf st)) (fft_inputbuf st) @ xs
                                  @ drop (nat (smpls_in_inputbuf st) + length xs) (fft_inputbuf st),
                smpls_in_inputbuf := smpls_in_inputbuf st + int (length xs) \<rparr>)"
  using assms
proof (induction xs arbitrary: st)
  case Nil
  then show ?case by simp
next
  case (Cons x xs)
  let ?k = "nat (smpls_in_inputbuf st)"
  let ?st1 = "st \<lparr> fft_inputbuf := (fft_inputbuf st)[?k := x],
                smpls_in_inputbuf := smpls_in_inputbuf st + 1 \<rparr>"
  from Cons.prems have below: "smpls_in_inputbuf st + 1 < dftblocksize st" by simp
  have step: "run_zratio_filter K D x st = (zratio_value st / bitvalue st, ?st1)"
    by (rule run_zratio_filter_below [OF below])
  have klen: "?k < length (fft_inputbuf st)"
    using Cons.prems by simp
  have upd: "(fft_inputbuf st)[?k := x] = take ?k (fft_inputbuf st) @ x # drop (Suc ?k) (fft_inputbuf st)"
    using klen by (simp add: upd_conv_take_nth_drop)
  have nat1: "nat (smpls_in_inputbuf st + 1) = Suc ?k"
    using Cons.prems(1) by simp
  have IH: "zratio_feed K D xs ?st1 =
      (replicate (length xs) (zratio_value ?st1 / bitvalue ?st1),
       ?st1 \<lparr> fft_inputbuf := take (nat (smpls_in_inputbuf ?st1)) (fft_inputbuf ?st1) @ xs
                                  @ drop (nat (smpls_in_inputbuf ?st1) + length xs) (fft_inputbuf ?st1),
                smpls_in_inputbuf := smpls_in_inputbuf ?st1 + int (length xs) \<rparr>)"
    using Cons.prems by (intro Cons.IH) simp_all
  have bufeq: "take (Suc ?k) ((fft_inputbuf st)[?k := x]) @ xs @ drop (Suc ?k + length xs) ((fft_inputbuf st)[?k := x])
      = take ?k (fft_inputbuf st) @ (x # xs) @ drop (?k + length (x # xs)) (fft_inputbuf st)"
    using klen by (simp add: upd take_Suc_conv_app_nth add.commute)
  show ?case
    using bufeq by (simp add: step IH nat1 del: list_update.simps)
qed

lemma zratio_block_value_upd:
  "zratio_block_value D (st \<lparr> fft_inputbuf := b, smpls_in_inputbuf := n \<rparr>) = zratio_block_value D st"
  by (intro ext) (simp add: zratio_block_value_def
        zratio_bin_params [of "st \<lparr> fft_inputbuf := b, smpls_in_inputbuf := n \<rparr>" st])

lemma run_zratio_filter_boundary:
  assumes "0 \<le> smpls_in_inputbuf st"
    and "smpls_in_inputbuf st + 1 = dftblocksize st"
    and "length (fft_inputbuf st) = nat (dftblocksize st)"
  shows "run_zratio_filter K D x st =
          (snd (zratio_block_value D st (K (butlast (fft_inputbuf st) @ [x]))) / bitvalue st,
           st \<lparr> fft_inputbuf := butlast (fft_inputbuf st) @ [x],
                smpls_in_inputbuf := 0,
                fft_outputbuf := fst (zratio_block_value D st (K (butlast (fft_inputbuf st) @ [x]))),
                zratio_value := snd (zratio_block_value D st (K (butlast (fft_inputbuf st) @ [x]))) \<rparr>)"
proof -
  let ?k = "nat (smpls_in_inputbuf st)"
  let ?st1 = "st \<lparr> fft_inputbuf := (fft_inputbuf st)[?k := x],
                smpls_in_inputbuf := smpls_in_inputbuf st + 1 \<rparr>"
  have k: "Suc ?k = length (fft_inputbuf st)"
    using assms by simp
  then have upd: "(fft_inputbuf st)[?k := x] = butlast (fft_inputbuf st) @ [x]"
    by (metis append_butlast_last_id butlast_snoc diff_Suc_1 length_0_conv length_butlast
        list_update_length nat.simps(3))
  have len: "length (butlast (fft_inputbuf st) @ [x]) = nat (dftblocksize st)"
    using k assms(3) by simp
  show ?thesis
    using assms(2) len by (simp add: run_zratio_filter_def Let_def zratio_block_value_upd upd)
qed

lemma create_zr_example:
  "create_zratio_filter dblcmp_exact j1 j2 100 10000000 (15 / 2) 1 = Inr (Some (zr_example j1 j2))"
  by (simp add: create_zratio_filter_def zr_example_def dblcmp_exact_def Let_def
      ZRATIO_EPOCH_LEN_def ZR_TIME_FIXP_SCALING_def ZRATIO_F0_def ZRATIO_F1_def ZRATIO_F3_def
      ZRATIO_F4_def c_trunc_def signed_divide_int_def)


lemma run_zratio_filter_result:
  "fst (run_zratio_filter K D x st) = zratio_value (snd (run_zratio_filter K D x st)) / bitvalue st"
  by (simp add: run_zratio_filter_def Let_def split: prod.splits)

lemma zratio_feed_zero:
  assumes "zratio_value st = 0"
    and "smpls_in_inputbuf st + int (length xs) < dftblocksize st"
  shows "set (fst (zratio_feed K D xs st)) \<subseteq> {0}"
  using assms
proof (induction xs arbitrary: st)
  case Nil
  then show ?case by simp
next
  case (Cons x xs)
  let ?st1 = "st \<lparr> fft_inputbuf := (fft_inputbuf st)[nat (smpls_in_inputbuf st) := x],
                smpls_in_inputbuf := smpls_in_inputbuf st + 1 \<rparr>"
  from Cons.prems have below: "smpls_in_inputbuf st + 1 < dftblocksize st" by simp
  have step: "run_zratio_filter K D x st = (zratio_value st / bitvalue st, ?st1)"
    by (rule run_zratio_filter_below [OF below])
  have "set (fst (zratio_feed K D xs ?st1)) \<subseteq> {0}"
    using Cons.prems by (intro Cons.IH) simp_all
  then show ?case
    using Cons.prems(1) by (auto simp add: step split: prod.splits)
qed

text \<open>
  Claim C10. \<^verbatim>\<open>run_zratio_filter\<close> returns the stored ratio divided by \<open>bitvalue\<close>; a call
  that does not bring the sample counter to \<open>dftblocksize\<close> leaves the stored ratio as it
  was; and after \<^verbatim>\<open>reset_zratio_filter\<close> every call returns 0 as long as fewer than
  \<open>dftblocksize\<close> samples have been handed over. (For \<open>bitvalue = 0\<close> the C division
  \<^verbatim>\<open>0.0 / 0.0\<close> is not a number, hence the premise.)
\<close>

theorem run_zratio_filter_piecewise_constant:
  assumes "bitvalue st \<noteq> 0"
  shows "fst (run_zratio_filter K D x st)
           = zratio_value (snd (run_zratio_filter K D x st)) / bitvalue st
       \<and> (smpls_in_inputbuf st + 1 < dftblocksize st
            \<longrightarrow> zratio_value (snd (run_zratio_filter K D x st)) = zratio_value st)
       \<and> (\<forall>xs :: real list. int (length xs) < dftblocksize st
            \<longrightarrow> (\<forall>y \<in> set (fst (zratio_feed K D xs (reset_zratio_filter st))). y = 0))"
proof (intro conjI allI impI)
  show "fst (run_zratio_filter K D x st)
           = zratio_value (snd (run_zratio_filter K D x st)) / bitvalue st"
    by (rule run_zratio_filter_result)
next
  assume "smpls_in_inputbuf st + 1 < dftblocksize st"
  then show "zratio_value (snd (run_zratio_filter K D x st)) = zratio_value st"
    by (simp add: run_zratio_filter_below)
next
  fix xs :: "real list"
  assume len: "int (length xs) < dftblocksize st"
  have "set (fst (zratio_feed K D xs (reset_zratio_filter st))) \<subseteq> {0}"
    by (rule zratio_feed_zero) (use len in \<open>simp_all add: reset_zratio_filter_def\<close>)
  then show "\<forall>y \<in> set (fst (zratio_feed K D xs (reset_zratio_filter st))). y = 0"
    by auto
qed

theorem run_zratio_filter_piecewise_constant_witness:
  "bitvalue (zr_example (\<lambda>n. 0) (\<lambda>n. 0)) \<noteq> 0
   \<and> fst (run_zratio_filter fft_probe dblcmp_exact 7 (zr_example (\<lambda>n. 0) (\<lambda>n. 0)))
       = zratio_value (snd (run_zratio_filter fft_probe dblcmp_exact 7 (zr_example (\<lambda>n. 0) (\<lambda>n. 0))))
         / bitvalue (zr_example (\<lambda>n. 0) (\<lambda>n. 0))
   \<and> zratio_value (snd (run_zratio_filter fft_probe dblcmp_exact 7 (zr_example (\<lambda>n. 0) (\<lambda>n. 0)))) = 0
   \<and> set (fst (zratio_feed fft_probe dblcmp_exact [7, 8, 9]
                 (reset_zratio_filter (zr_example (\<lambda>n. 0) (\<lambda>n. 0))))) \<subseteq> {0}"
proof -
  let ?z = "zr_example (\<lambda>n. 0) (\<lambda>n. 0)"
  have b: "bitvalue ?z \<noteq> 0"
    by (simp add: zr_example_def del: upt_rec_numeral)
  have c: "smpls_in_inputbuf ?z + 1 < dftblocksize ?z"
    by (simp add: zr_example_def del: upt_rec_numeral)
  have v: "zratio_value ?z = 0"
    by (simp add: zr_example_def del: upt_rec_numeral)
  have l: "int (length [7, 8, 9 :: real]) < dftblocksize ?z"
    by (simp add: zr_example_def del: upt_rec_numeral)
  note t = run_zratio_filter_piecewise_constant [OF b, of fft_probe dblcmp_exact 7]
  from t have t1: "fst (run_zratio_filter fft_probe dblcmp_exact 7 ?z)
       = zratio_value (snd (run_zratio_filter fft_probe dblcmp_exact 7 ?z)) / bitvalue ?z"
    by blast
  from t c v have t2: "zratio_value (snd (run_zratio_filter fft_probe dblcmp_exact 7 ?z)) = 0"
    by simp
  from t l have "\<forall>y \<in> set (fst (zratio_feed fft_probe dblcmp_exact [7, 8, 9]
                 (reset_zratio_filter ?z))). y = 0"
    by blast
  then have t3: "set (fst (zratio_feed fft_probe dblcmp_exact [7, 8, 9]
                 (reset_zratio_filter ?z))) \<subseteq> {0}"
    by blast
  from b t1 t2 t3 show ?thesis by blast
qed

lemma zratio_feed_cross:
  assumes "0 \<le> smpls_in_inputbuf st"
    and "length (fft_inputbuf st) = nat (dftblocksize st)"
    and "smpls_in_inputbuf st + int (length xs) + 1 = dftblocksize st"
    and "int (length zs) < dftblocksize st"
  shows "zratio_feed K D (xs @ [y] @ zs) st =
    (replicate (length xs) (zratio_value st / bitvalue st)
       @ replicate (Suc (length zs))
           (snd (zratio_block_value D st
                  (K (take (nat (smpls_in_inputbuf st)) (fft_inputbuf st) @ xs @ [y]))) / bitvalue st),
     st \<lparr> fft_inputbuf :=
            zs @ drop (length zs) (take (nat (smpls_in_inputbuf st)) (fft_inputbuf st) @ xs @ [y]),
          smpls_in_inputbuf := int (length zs),
          fft_outputbuf := fst (zratio_block_value D st
                  (K (take (nat (smpls_in_inputbuf st)) (fft_inputbuf st) @ xs @ [y]))),
          zratio_value := snd (zratio_block_value D st
                  (K (take (nat (smpls_in_inputbuf st)) (fft_inputbuf st) @ xs @ [y]))) \<rparr>)"
proof -
  let ?k = "nat (smpls_in_inputbuf st)"
  let ?buf = "fft_inputbuf st"
  let ?blk = "take ?k ?buf @ xs @ [y]"
  let ?v = "snd (zratio_block_value D st (K ?blk))"
  define st1 where "st1 = st \<lparr> fft_inputbuf := take ?k ?buf @ xs @ drop (?k + length xs) ?buf,
                    smpls_in_inputbuf := smpls_in_inputbuf st + int (length xs) \<rparr>"
  define st2 where "st2 = st1 \<lparr> fft_inputbuf := ?blk, smpls_in_inputbuf := 0,
                     fft_outputbuf := fst (zratio_block_value D st (K ?blk)),
                     zratio_value := ?v \<rparr>"
  define st3 where "st3 = st2 \<lparr> fft_inputbuf := zs @ drop (length zs) ?blk,
                  smpls_in_inputbuf := int (length zs) \<rparr>"
  have klen: "?k + length xs + 1 = length ?buf"
    using assms(1,2,3) by linarith
  have A: "zratio_feed K D xs st = (replicate (length xs) (zratio_value st / bitvalue st), st1)"
    unfolding st1_def using assms by (intro zratio_feed_below) simp_all
  have bl: "butlast (take ?k ?buf @ xs @ drop (?k + length xs) ?buf) = take ?k ?buf @ xs"
  proof -
    have "length (drop (?k + length xs) ?buf) = 1"
      using klen by simp
    then obtain z where "drop (?k + length xs) ?buf = [z]"
      by (metis One_nat_def length_0_conv length_Suc_conv)
    then show ?thesis
      by (simp add: butlast_append)
  qed
  have B: "run_zratio_filter K D y st1 = (?v / bitvalue st, st2)"
  proof -
    have "run_zratio_filter K D y st1 =
          (snd (zratio_block_value D st1 (K (butlast (fft_inputbuf st1) @ [y]))) / bitvalue st1,
           st1 \<lparr> fft_inputbuf := butlast (fft_inputbuf st1) @ [y],
                smpls_in_inputbuf := 0,
                fft_outputbuf := fst (zratio_block_value D st1 (K (butlast (fft_inputbuf st1) @ [y]))),
                zratio_value := snd (zratio_block_value D st1 (K (butlast (fft_inputbuf st1) @ [y]))) \<rparr>)"
      using assms klen by (intro run_zratio_filter_boundary) (simp_all add: st1_def)
    moreover have "butlast (fft_inputbuf st1) = take ?k ?buf @ xs"
      by (simp add: st1_def bl)
    moreover have "zratio_block_value D st1 = zratio_block_value D st"
      by (simp add: st1_def zratio_block_value_upd)
    moreover have "bitvalue st1 = bitvalue st"
      by (simp add: st1_def)
    ultimately show ?thesis
      by (simp add: st2_def)
  qed
  have C: "zratio_feed K D zs st2 = (replicate (length zs) (?v / bitvalue st), st3)"
  proof -
    have "zratio_feed K D zs st2 =
          (replicate (length zs) (zratio_value st2 / bitvalue st2),
           st2 \<lparr> fft_inputbuf := take (nat (smpls_in_inputbuf st2)) (fft_inputbuf st2) @ zs
                                  @ drop (nat (smpls_in_inputbuf st2) + length zs) (fft_inputbuf st2),
                smpls_in_inputbuf := smpls_in_inputbuf st2 + int (length zs) \<rparr>)"
      using assms klen by (intro zratio_feed_below) (simp_all add: st2_def st1_def)
    moreover have "zratio_value st2 = ?v" "bitvalue st2 = bitvalue st"
      "smpls_in_inputbuf st2 = 0" "fft_inputbuf st2 = ?blk"
      by (simp_all add: st2_def st1_def)
    ultimately show ?thesis
      by (simp add: st3_def)
  qed
  have "zratio_feed K D (xs @ [y] @ zs) st =
      (replicate (length xs) (zratio_value st / bitvalue st) @ (?v / bitvalue st) # replicate (length zs) (?v / bitvalue st),
       st3)"
    by (simp add: zratio_feed_append A B C)
  moreover have "st3 = st \<lparr> fft_inputbuf := zs @ drop (length zs) ?blk,
          smpls_in_inputbuf := int (length zs),
          fft_outputbuf := fst (zratio_block_value D st (K ?blk)),
          zratio_value := ?v \<rparr>"
    by (simp add: st3_def st2_def st1_def)
  ultimately show ?thesis by simp
qed


lemma zratio_bin_step:
  "snd (zratio_bin st spec (ob, band_sums st spec n) n) = band_sums st spec (Suc n)"
  by (simp add: zratio_bin_def band_sums_def bin_power_def Let_def)

lemma foldl_zratio_bin_sums:
  "snd (foldl (zratio_bin st spec) (ob, 0, 0, 0, 0) [0..<n]) = band_sums st spec n"
proof (induction n)
  case 0
  show ?case by (simp add: band_sums_def)
next
  case (Suc n)
  obtain ob' where prev: "foldl (zratio_bin st spec) (ob, 0, 0, 0, 0) [0..<n] = (ob', band_sums st spec n)"
    using Suc.IH by (metis prod.collapse)
  show ?case
    by (simp add: prev zratio_bin_step)
qed

lemma fft_probe_nth:
  assumes "i < 100"
  shows "fft_probe xs ! i = (if i = 30 then (xs ! 30, 0) else if i = 1 then (xs ! 0, 0) else (0, 0))"
proof -
  have l: "length (replicate 101 (0::real, 0::real)) = 101" by simp
  show ?thesis
    unfolding fft_probe_def using assms
    by (simp only: nth_list_update length_list_update l nth_replicate) simp
qed


lemma band_sums_probe:
  assumes "f0 st = 1" "f1 st = 6" "f2 st = 15" "f3 st = 24" "f4 st = 50" "fft_outputbufsize st = 100"
  shows "band_sums st (fft_probe xs) 100 = ((xs ! 0)\<^sup>2 / 100, 0, 0, (xs ! 30)\<^sup>2 / 100)"
proof -
  have pw: "bin_power st (fft_probe xs) i =
      (if i = 30 then (xs ! 30)\<^sup>2 / 100 else if i = 1 then (xs ! 0)\<^sup>2 / 100 else 0)"
    if "i < 100" for i
    using that by (simp add: bin_power_def fft_probe_nth assms power2_eq_square)
  have d: "(\<Sum>i<100. if f0 st \<le> int i \<and> int i < f1 st then bin_power st (fft_probe xs) i else 0)
      = (\<Sum>i<100::nat. if i = 1 then (xs ! 0)\<^sup>2 / 100 else 0)"
    by (rule sum.cong) (auto simp add: pw assms)
  have t: "(\<Sum>i<100. if f1 st \<le> int i \<and> int i < f2 st then bin_power st (fft_probe xs) i else 0)
      = (\<Sum>i<100::nat. 0)"
    by (rule sum.cong) (auto simp add: pw assms)
  have al: "(\<Sum>i<100. if f2 st \<le> int i \<and> int i < f3 st then bin_power st (fft_probe xs) i else 0)
      = (\<Sum>i<100::nat. 0)"
    by (rule sum.cong) (auto simp add: pw assms)
  have be: "(\<Sum>i<100. if f3 st \<le> int i \<and> int i \<le> f4 st then bin_power st (fft_probe xs) i else 0)
      = (\<Sum>i<100::nat. if i = 30 then (xs ! 30)\<^sup>2 / 100 else 0)"
    by (rule sum.cong) (auto simp add: pw assms)
  show ?thesis
    unfolding band_sums_def d t al be by simp
qed

lemma probe_value:
  assumes "f0 st = 1" "f1 st = 6" "f2 st = 15" "f3 st = 24" "f4 st = 50" "fft_outputbufsize st = 100"
  shows "snd (zratio_block_value dblcmp_exact st (fft_probe xs)) =
     (if 0 < (xs ! 0)\<^sup>2 + (xs ! 30)\<^sup>2
      then ((xs ! 0)\<^sup>2 - (xs ! 30)\<^sup>2) / ((xs ! 0)\<^sup>2 + (xs ! 30)\<^sup>2) else 0)"
proof -
  have "snd (foldl (zratio_bin st (fft_probe xs)) (fft_outputbuf st, 0, 0, 0, 0) [0..<100])
      = ((xs ! 0)\<^sup>2 / 100, 0, 0, (xs ! 30)\<^sup>2 / 100)"
    by (simp only: foldl_zratio_bin_sums band_sums_probe [OF assms])
  then obtain ob where "foldl (zratio_bin st (fft_probe xs)) (fft_outputbuf st, 0, 0, 0, 0) [0..<100]
      = (ob, (xs ! 0)\<^sup>2 / 100, 0, 0, (xs ! 30)\<^sup>2 / 100)"
    by (metis prod.collapse)
  then show ?thesis
    by (simp add: zratio_block_value_def assms dblcmp_exact_def Let_def
        diff_divide_distrib add_divide_distrib[symmetric])
qed


lemma memcpy_doubles_aligned:
  "n mod 8 = 0 \<Longrightarrow> memcpy_doubles S dst src n = take (n div 8) src @ drop (n div 8) dst"
  by (simp add: memcpy_doubles_def Let_def)

lemma zr_checkpoint_fields:
  "smpls_in_inputbuf (zr_checkpoint S K D j1 j2) = 100"
  "smpls_in_inputbuf_bu (zr_checkpoint S K D j1 j2) = 100"
  "zratio_value (zr_checkpoint S K D j1 j2) = 0"
  "zratio_value_bu (zr_checkpoint S K D j1 j2) = 0"
  "bitvalue (zr_checkpoint S K D j1 j2) = 1"
  "dftblocksize (zr_checkpoint S K D j1 j2) = 200"
  "fft_inputbuf (zr_checkpoint S K D j1 j2) = replicate 100 1 @ drop 100 (map j1 [0..<200])"
  "fft_inputbuf_bu (zr_checkpoint S K D j1 j2) = replicate 25 1 @ drop 25 (map j2 [0..<200])"
  "f0 (zr_checkpoint S K D j1 j2) = 1" "f1 (zr_checkpoint S K D j1 j2) = 6"
  "f2 (zr_checkpoint S K D j1 j2) = 15" "f3 (zr_checkpoint S K D j1 j2) = 24"
  "f4 (zr_checkpoint S K D j1 j2) = 50" "fft_outputbufsize (zr_checkpoint S K D j1 j2) = 100"
proof -
  let ?z = "reset_zratio_filter (zr_example j1 j2)"
  have "zratio_feed K D (replicate 100 1) ?z =
          (replicate (length (replicate 100 (1::real))) (zratio_value ?z / bitvalue ?z),
           ?z \<lparr> fft_inputbuf := take (nat (smpls_in_inputbuf ?z)) (fft_inputbuf ?z) @ replicate 100 1
                                  @ drop (nat (smpls_in_inputbuf ?z) + length (replicate 100 (1::real))) (fft_inputbuf ?z),
                smpls_in_inputbuf := smpls_in_inputbuf ?z + int (length (replicate 100 (1::real))) \<rparr>)"
    by (rule zratio_feed_below) (simp_all add: reset_zratio_filter_def zr_example_def)
  then have w: "snd (zratio_feed K D (replicate 100 1) ?z) =
      ?z \<lparr> fft_inputbuf := replicate 100 1 @ drop 100 (map j1 [0..<200]), smpls_in_inputbuf := 100 \<rparr>"
    by (simp add: reset_zratio_filter_def zr_example_def del: upt_rec_numeral)
  show "smpls_in_inputbuf (zr_checkpoint S K D j1 j2) = 100"
    "smpls_in_inputbuf_bu (zr_checkpoint S K D j1 j2) = 100"
    "zratio_value (zr_checkpoint S K D j1 j2) = 0"
    "zratio_value_bu (zr_checkpoint S K D j1 j2) = 0"
    "bitvalue (zr_checkpoint S K D j1 j2) = 1"
    "dftblocksize (zr_checkpoint S K D j1 j2) = 200"
    "fft_inputbuf (zr_checkpoint S K D j1 j2) = replicate 100 1 @ drop 100 (map j1 [0..<200])"
    "fft_inputbuf_bu (zr_checkpoint S K D j1 j2) = replicate 25 1 @ drop 25 (map j2 [0..<200])"
    "f0 (zr_checkpoint S K D j1 j2) = 1" "f1 (zr_checkpoint S K D j1 j2) = 6"
    "f2 (zr_checkpoint S K D j1 j2) = 15" "f3 (zr_checkpoint S K D j1 j2) = 24"
    "f4 (zr_checkpoint S K D j1 j2) = 50" "fft_outputbufsize (zr_checkpoint S K D j1 j2) = 100"
    unfolding zr_checkpoint_def w
    by (simp_all add: zratio_filter_save_buf_def reset_zratio_filter_def zr_example_def
        memcpy_doubles_aligned del: upt_rec_numeral)
qed


lemma replicate_150_split: "replicate 150 x = replicate 99 x @ [x] @ replicate 50 x"
proof -
  have "replicate 99 x @ [x] @ replicate 50 x = replicate 99 x @ replicate 1 x @ replicate 50 x"
    by simp
  also have "\<dots> = replicate (99 + (1 + 50)) x"
    by (simp only: replicate_add)
  finally show ?thesis by simp
qed

lemma zr_first_pass_eq:
  "zr_first_pass S K D j1 j2 =
    (replicate 99 0 @ replicate 51
        (snd (zratio_block_value D (zr_checkpoint S K D j1 j2) (K (replicate 100 1 @ replicate 99 2 @ [2])))),
     (zr_checkpoint S K D j1 j2)
       \<lparr> fft_inputbuf := replicate 50 2 @ replicate 50 1 @ replicate 99 2 @ [2],
         smpls_in_inputbuf := 50,
         fft_outputbuf := fst (zratio_block_value D (zr_checkpoint S K D j1 j2)
                                 (K (replicate 100 1 @ replicate 99 2 @ [2]))),
         zratio_value := snd (zratio_block_value D (zr_checkpoint S K D j1 j2)
                                 (K (replicate 100 1 @ replicate 99 2 @ [2]))) \<rparr>)"
proof -
  let ?C = "zr_checkpoint S K D j1 j2"
  have "zratio_feed K D (replicate 99 2 @ [2] @ replicate 50 2) ?C =
    (replicate (length (replicate 99 (2::real))) (zratio_value ?C / bitvalue ?C)
       @ replicate (Suc (length (replicate 50 (2::real))))
           (snd (zratio_block_value D ?C
                  (K (take (nat (smpls_in_inputbuf ?C)) (fft_inputbuf ?C) @ replicate 99 2 @ [2]))) / bitvalue ?C),
     ?C \<lparr> fft_inputbuf :=
            replicate 50 2 @ drop (length (replicate 50 (2::real))) (take (nat (smpls_in_inputbuf ?C)) (fft_inputbuf ?C) @ replicate 99 2 @ [2]),
          smpls_in_inputbuf := int (length (replicate 50 (2::real))),
          fft_outputbuf := fst (zratio_block_value D ?C
                  (K (take (nat (smpls_in_inputbuf ?C)) (fft_inputbuf ?C) @ replicate 99 2 @ [2]))),
          zratio_value := snd (zratio_block_value D ?C
                  (K (take (nat (smpls_in_inputbuf ?C)) (fft_inputbuf ?C) @ replicate 99 2 @ [2]))) \<rparr>)"
    by (rule zratio_feed_cross) (simp_all add: zr_checkpoint_fields del: upt_rec_numeral)
  then show ?thesis
    unfolding zr_first_pass_def replicate_150_split
    by (simp add: zr_checkpoint_fields del: upt_rec_numeral)
qed


lemma zr_restored_fields:
  fixes S K D j1 j2
  defines "R \<equiv> zratio_filter_restore_buf S (snd (zr_first_pass S K D j1 j2))"
  shows "smpls_in_inputbuf R = 100" "zratio_value R = 0" "bitvalue R = 1" "dftblocksize R = 200"
    "fft_inputbuf R = replicate 25 1 @ replicate 25 2 @ replicate 50 1 @ replicate 99 2 @ [2]"
    "f0 R = 1" "f1 R = 6" "f2 R = 15" "f3 R = 24" "f4 R = 50" "fft_outputbufsize R = 100"
  unfolding R_def zr_first_pass_eq
  by (simp_all add: zratio_filter_restore_buf_def zr_checkpoint_fields memcpy_doubles_aligned
      del: upt_rec_numeral)

lemma zr_second_pass_eq:
  "fst (zr_second_pass S K D j1 j2) =
    replicate 99 0 @ replicate 51
        (snd (zratio_block_value D (zr_example j1 j2)
               (K (replicate 25 1 @ replicate 25 2 @ replicate 50 1 @ replicate 99 2 @ [2]))))"
proof -
  define R where "R = zratio_filter_restore_buf S (snd (zr_first_pass S K D j1 j2))"
  note Rf = zr_restored_fields [of S K D j1 j2, folded R_def]
  have "zratio_feed K D (replicate 99 2 @ [2] @ replicate 50 2) R =
    (replicate (length (replicate 99 (2::real))) (zratio_value R / bitvalue R)
       @ replicate (Suc (length (replicate 50 (2::real))))
           (snd (zratio_block_value D R
                  (K (take (nat (smpls_in_inputbuf R)) (fft_inputbuf R) @ replicate 99 2 @ [2]))) / bitvalue R),
     R \<lparr> fft_inputbuf :=
            replicate 50 2 @ drop (length (replicate 50 (2::real))) (take (nat (smpls_in_inputbuf R)) (fft_inputbuf R) @ replicate 99 2 @ [2]),
          smpls_in_inputbuf := int (length (replicate 50 (2::real))),
          fft_outputbuf := fst (zratio_block_value D R
                  (K (take (nat (smpls_in_inputbuf R)) (fft_inputbuf R) @ replicate 99 2 @ [2]))),
          zratio_value := snd (zratio_block_value D R
                  (K (take (nat (smpls_in_inputbuf R)) (fft_inputbuf R) @ replicate 99 2 @ [2]))) \<rparr>)"
    by (rule zratio_feed_cross) (simp_all add: Rf)
  moreover have "snd (zratio_block_value D R spec) = snd (zratio_block_value D (zr_example j1 j2) spec)" for spec
    by (rule zratio_block_value_snd) (simp_all add: Rf, simp_all add: zr_example_def)
  ultimately show ?thesis
    unfolding zr_second_pass_def replicate_150_split R_def [symmetric]
    by (simp add: Rf)
qed

lemma zr_first_pass_out:
  "fst (zr_first_pass S K D j1 j2) =
    replicate 99 0 @ replicate 51
        (snd (zratio_block_value D (zr_example j1 j2) (K (replicate 100 1 @ replicate 99 2 @ [2]))))"
proof -
  have "snd (zratio_block_value D (zr_checkpoint S K D j1 j2) spec)
      = snd (zratio_block_value D (zr_example j1 j2) spec)" for spec
    by (rule zratio_block_value_snd) (simp_all add: zr_checkpoint_fields, simp_all add: zr_example_def)
  then show ?thesis
    by (simp add: zr_first_pass_eq)
qed

text \<open>
  Claim C5, evaluated on the checkpoint scenario of the example filter (block size 200,
  so that \<^verbatim>\<open>memcpy\<close> with a count of 200 bytes copies the first 25 samples only). At
  the checkpoint the input buffer holds 100 samples of the unfinished block. The first
  pass completes that block and writes 50 samples of the next block over the start of the
  buffer; the restore brings back the first 25 samples of the checkpoint only, so the
  second pass transforms a block in which samples 25 to 49 come from the wrong block. With
  the stand-in transform the first pass yields 0 throughout and the second pass yields
  \<open>- 3 / 5\<close> from the end of the block on: the two passes differ.
\<close>

theorem zratio_restore_buf_replays_stale_samples:
  "fst (zr_first_pass S fft_probe dblcmp_exact j1 j2) = replicate 150 0
   \<and> fst (zr_second_pass S fft_probe dblcmp_exact j1 j2) = replicate 99 0 @ replicate 51 (- 3 / 5)"
proof -
  have z: "f0 (zr_example j1 j2) = 1" "f1 (zr_example j1 j2) = 6" "f2 (zr_example j1 j2) = 15"
    "f3 (zr_example j1 j2) = 24" "f4 (zr_example j1 j2) = 50"
    "fft_outputbufsize (zr_example j1 j2) = 100"
    by (simp_all add: zr_example_def)
  have n1: "(replicate 100 (1::real) @ replicate 99 2 @ [2]) ! 0 = 1"
    "(replicate 100 (1::real) @ replicate 99 2 @ [2]) ! 30 = 1"
    by (simp_all add: nth_append)
  have n2: "(replicate 25 (1::real) @ replicate 25 2 @ replicate 50 1 @ replicate 99 2 @ [2]) ! 0 = 1"
    "(replicate 25 (1::real) @ replicate 25 2 @ replicate 50 1 @ replicate 99 2 @ [2]) ! 30 = 2"
    by (simp_all add: nth_append)
  have v1: "snd (zratio_block_value dblcmp_exact (zr_example j1 j2)
               (fft_probe (replicate 100 1 @ replicate 99 2 @ [2]))) = 0"
    unfolding probe_value [OF z] n1 by simp
  have v2: "snd (zratio_block_value dblcmp_exact (zr_example j1 j2)
               (fft_probe (replicate 25 1 @ replicate 25 2 @ replicate 50 1 @ replicate 99 2 @ [2]))) = - 3 / 5"
    unfolding probe_value [OF z] n2 by simp
  have r: "replicate 99 (0::real) @ replicate 51 0 = replicate 150 0"
    by (simp flip: replicate_add)
  show ?thesis
    by (simp only: zr_first_pass_out zr_second_pass_eq v1 v2 r) 
qed



section \<open>Rounding to double\<close>

lemma round_even_error: "\<bar>real_of_int (round_even y) - y\<bar> \<le> 1 / 2"
  unfolding round_even_def Let_def by (auto; linarith)

lemma round_even_of_int [simp]: "round_even (real_of_int n) = n"
  by (simp add: round_even_def)

lemma round_even_mono: "x \<le> y \<Longrightarrow> round_even x \<le> round_even y"
proof -
  assume xy: "x \<le> y"
  have f: "\<lfloor>x\<rfloor> \<le> \<lfloor>y\<rfloor>"
    using xy by (rule floor_mono)
  show ?thesis
  proof (cases "\<lfloor>x\<rfloor> = \<lfloor>y\<rfloor>")
    case True
    then show ?thesis
      using xy unfolding round_even_def Let_def by auto
  next
    case False
    then have "\<lfloor>x\<rfloor> + 1 \<le> \<lfloor>y\<rfloor>"
      using f by simp
    moreover have "round_even x \<le> \<lfloor>x\<rfloor> + 1" "\<lfloor>y\<rfloor> \<le> round_even y"
      unfolding round_even_def Let_def by auto
    ultimately show ?thesis
      by linarith
  qed
qed

lemma dbl_exponent_bounds:
  assumes "x \<noteq> 0"
  shows "2 powi dbl_exponent x \<le> \<bar>x\<bar>" "\<bar>x\<bar> < 2 powi (dbl_exponent x + 1)"
proof -
  have both: "2 powi dbl_exponent x \<le> \<bar>x\<bar> \<and> \<bar>x\<bar> < 2 powi (dbl_exponent x + 1)"
  proof (cases "1 \<le> \<bar>x\<bar>")
    case True
    define n where "n = \<lfloor>\<bar>x\<bar>\<rfloor>"
    have n: "0 < n" "real_of_int n \<le> \<bar>x\<bar>" "\<bar>x\<bar> < real_of_int n + 1"
      using True by (simp_all add: n_def)
    define b where "b = bitlen n"
    have bb: "2 ^ nat (b - 1) \<le> n" "n < 2 ^ nat b"
      using bitlen_bounds [OF n(1)] by (simp_all add: b_def)
    have b1: "1 \<le> b"
      using bb(2) n(1) by (cases "b \<le> 0") auto
    have e: "dbl_exponent x = b - 1"
      using True by (simp add: dbl_exponent_def b_def n_def)
    have "(2::real) powi (b - 1) = 2 ^ nat (b - 1)"
      using b1 by (simp add: power_int_def)
    moreover have "(2::real) powi b = 2 ^ nat b"
      using b1 by (simp add: power_int_def)
    moreover have "(2::real) ^ nat (b - 1) \<le> real_of_int n"
      using bb(1) of_int_le_iff [of "2 ^ nat (b - 1)" n, where ?'a = real] by simp
    moreover have "real_of_int n + 1 \<le> (2::real) ^ nat b"
      using bb(2) of_int_le_iff [of "n + 1" "2 ^ nat b", where ?'a = real] by simp
    ultimately have "2 powi (b - 1) \<le> \<bar>x\<bar>" "\<bar>x\<bar> < 2 powi b"
      using n(2,3) by linarith+
    then show ?thesis
      unfolding e by simp
  next
    case False
    define y where "y = 1 / \<bar>x\<bar>"
    have y: "1 < y" "\<bar>x\<bar> = 1 / y" "0 < \<bar>x\<bar>"
      using False assms by (simp_all add: y_def)
    define m where "m = \<lceil>y\<rceil>"
    have m: "0 < m - 1" "real_of_int (m - 1) < y" "y \<le> real_of_int m"
      using y(1) by (simp_all add: m_def) linarith+
    define k where "k = bitlen (m - 1)"
    have kk: "2 ^ nat (k - 1) \<le> m - 1" "m - 1 < 2 ^ nat k"
      using bitlen_bounds [OF m(1)] by (simp_all add: k_def)
    have k1: "1 \<le> k"
      using kk(2) m(1) by (cases "k \<le> 0") auto
    have e: "dbl_exponent x = - k"
      using False by (simp add: dbl_exponent_def k_def m_def y_def)
    have p1: "(2::real) powi (- k) = 1 / 2 ^ nat k"
      using k1 by (simp add: power_int_def field_simps)
    have p2: "(2::real) powi (- k + 1) = 1 / 2 ^ nat (k - 1)"
      using k1 by (simp add: power_int_def field_simps nat_diff_distrib')
    have "real_of_int m \<le> (2::real) ^ nat k"
      using kk(2) of_int_le_iff [of m "2 ^ nat k", where ?'a = real] by simp
    then have a: "y \<le> 2 ^ nat k"
      using m(3) by linarith
    have "(2::real) ^ nat (k - 1) \<le> real_of_int (m - 1)"
      using kk(1) of_int_le_iff [of "2 ^ nat (k - 1)" "m - 1", where ?'a = real] by simp
    then have b: "2 ^ nat (k - 1) < y"
      using m(2) by linarith
    have "1 / 2 ^ nat k \<le> 1 / y"
      using a y(1) by (simp add: frac_le)
    moreover have "1 / y < 1 / 2 ^ nat (k - 1)"
      using b by (simp add: frac_less2)
    ultimately show ?thesis
      unfolding e p1 p2 y(2) by simp
  qed
  show "2 powi dbl_exponent x \<le> \<bar>x\<bar>" "\<bar>x\<bar> < 2 powi (dbl_exponent x + 1)"
    using both by simp_all
qed

lemma dbl_exponent_eq:
  assumes "2 powi e \<le> \<bar>x\<bar>" "\<bar>x\<bar> < 2 powi (e + 1)"
  shows "dbl_exponent x = e"
proof -
  have x: "x \<noteq> 0"
  proof
    assume "x = 0"
    moreover have "(0::real) < 2 powi e"
      by simp
    ultimately show False
      using assms(1) by linarith
  qed
  note b = dbl_exponent_bounds [OF x]
  have 1: "\<not> dbl_exponent x + 1 \<le> e"
  proof
    assume "dbl_exponent x + 1 \<le> e"
    then have "(2::real) powi (dbl_exponent x + 1) \<le> 2 powi e"
      by (rule power_int_increasing) simp
    then show False
      using assms(1) b(2) by linarith
  qed
  have 2: "\<not> e + 1 \<le> dbl_exponent x"
  proof
    assume "e + 1 \<le> dbl_exponent x"
    then have "(2::real) powi (e + 1) \<le> 2 powi dbl_exponent x"
      by (rule power_int_increasing) simp
    then show False
      using assms(2) b(1) by linarith
  qed
  show ?thesis
    using 1 2 by simp
qed

lemma dbl_eval:
  assumes "2 powi e \<le> \<bar>x\<bar>" "\<bar>x\<bar> < 2 powi (e + 1)" "- 1022 \<le> e"
  shows "dbl x = real_of_int (round_even (x / 2 powi (e - 52))) * 2 powi (e - 52)"
proof -
  have x: "x \<noteq> 0"
  proof
    assume "x = 0"
    moreover have "(0::real) < 2 powi e"
      by simp
    ultimately show False
      using assms(1) by linarith
  qed
  show ?thesis
    using x assms(3) by (simp add: dbl_def dbl_exponent_eq [OF assms(1,2)] max_def Let_def)
qed

lemma dbl_zero [simp]: "dbl 0 = 0"
  by (simp add: dbl_def)

lemma dbl_exponent_normal:
  assumes "2 powi (- 1022) \<le> \<bar>x\<bar>"
  shows "- 1022 \<le> dbl_exponent x"
proof (rule ccontr)
  assume "\<not> - 1022 \<le> dbl_exponent x"
  then have "dbl_exponent x + 1 \<le> - 1022"
    by simp
  then have "(2::real) powi (dbl_exponent x + 1) \<le> 2 powi (- 1022)"
    by (rule power_int_increasing) simp
  moreover have "x \<noteq> 0"
  proof
    assume "x = 0"
    moreover have "(0::real) < 2 powi (- 1022)"
      by simp
    ultimately show False
      using assms by linarith
  qed
  ultimately show False
    using dbl_exponent_bounds(2) [of x] assms by linarith
qed

text \<open>The relative error of a rounding in the normal range is at most \<open>2\<^sup>-\<^sup>5\<^sup>3\<close>.\<close>

lemma dbl_error:
  assumes "2 powi (- 1022) \<le> \<bar>x\<bar>"
  shows "\<bar>dbl x - x\<bar> \<le> \<bar>x\<bar> / 2 ^ 53"
proof -
  define e where "e = dbl_exponent x"
  define u :: real where "u = 2 powi (e - 52)"
  have x: "x \<noteq> 0"
  proof
    assume "x = 0"
    moreover have "(0::real) < 2 powi (- 1022)"
      by simp
    ultimately show False
      using assms by linarith
  qed
  have en: "- 1022 \<le> e"
    unfolding e_def using assms by (rule dbl_exponent_normal)
  have u0: "0 < u"
    by (simp add: u_def)
  have d: "dbl x = real_of_int (round_even (x / u)) * u"
    using x en by (simp add: dbl_def Let_def e_def [symmetric] u_def max_def)
  have "\<bar>real_of_int (round_even (x / u)) - x / u\<bar> \<le> 1 / 2"
    by (rule round_even_error)
  then have "\<bar>real_of_int (round_even (x / u)) - x / u\<bar> * u \<le> 1 / 2 * u"
    using u0 by (simp only: mult_le_cancel_right_pos)
  moreover have "\<bar>real_of_int (round_even (x / u)) - x / u\<bar> * u
      = \<bar>real_of_int (round_even (x / u)) * u - x\<bar>"
  proof -
    have "\<bar>real_of_int (round_even (x / u)) - x / u\<bar> * u
        = \<bar>(real_of_int (round_even (x / u)) - x / u) * u\<bar>"
      using u0 by (simp add: abs_mult)
    also have "(real_of_int (round_even (x / u)) - x / u) * u
        = real_of_int (round_even (x / u)) * u - x"
      using u0 by (simp add: left_diff_distrib)
    finally show ?thesis .
  qed
  ultimately have 1: "\<bar>dbl x - x\<bar> \<le> u / 2"
    unfolding d by simp
  have "u = 2 powi e / 2 ^ 52"
    by (simp add: u_def power_int_diff)
  then have "u / 2 = 2 powi e / 2 ^ 53"
    by simp
  also have "\<dots> \<le> \<bar>x\<bar> / 2 ^ 53"
    using dbl_exponent_bounds(1) [OF x] by (simp add: e_def divide_right_mono)
  finally show ?thesis
    using 1 by linarith
qed

text \<open>Integers below \<open>2\<^sup>5\<^sup>3\<close> in absolute value are doubles.\<close>

lemma dbl_of_int:
  assumes "\<bar>m\<bar> < 2 ^ 53"
  shows "dbl (real_of_int m) = real_of_int m"
proof (cases "m = 0")
  case True
  then show ?thesis by simp
next
  case False
  define x where "x = real_of_int m"
  define e where "e = dbl_exponent x"
  have x: "x \<noteq> 0" "1 \<le> \<bar>x\<bar>" "\<bar>x\<bar> < 2 ^ 53"
    using False assms by (simp_all add: x_def)
  have "\<not> 53 \<le> e"
  proof
    assume "53 \<le> e"
    then have "(2::real) powi 53 \<le> 2 powi e"
      by (rule power_int_increasing) simp
    then show False
      using dbl_exponent_bounds(1) [OF x(1)] x(3) by (simp add: e_def)
  qed
  then have e52: "e \<le> 52"
    by simp
  have "\<not> e + 1 \<le> 0"
  proof
    assume "e + 1 \<le> 0"
    then have "(2::real) powi (e + 1) \<le> 2 powi 0"
      by (rule power_int_increasing) simp
    then show False
      using dbl_exponent_bounds(2) [OF x(1)] x(2) by (simp add: e_def)
  qed
  then have e0: "0 \<le> e"
    by simp
  define k where "k = nat (52 - e)"
  have u: "(2::real) powi (e - 52) = 1 / 2 ^ k"
  proof -
    have "e - 52 = - int k"
      using e52 by (simp add: k_def)
    then have "(2::real) powi (e - 52) = 2 powi (- int k)"
      by simp
    also have "\<dots> = 1 / 2 ^ k"
      by (simp add: power_int_minus field_simps)
    finally show ?thesis .
  qed
  have "x / (2 powi (e - 52)) = real_of_int (m * 2 ^ k)"
    by (simp add: u x_def)
  then have "round_even (x / (2 powi (e - 52))) = m * 2 ^ k"
    by (simp only: round_even_of_int)
  then have "dbl x = real_of_int (m * 2 ^ k) * (1 / 2 ^ k)"
    using x(1) e0 by (simp add: dbl_def Let_def e_def [symmetric] max_def u)
  then show ?thesis
    by (simp add: x_def)
qed

lemma d_of_int_exact: "\<bar>m\<bar> < 2 ^ 53 \<Longrightarrow> d_of_int m = real_of_int m"
  by (simp add: d_of_int_def dbl_of_int)

lemma dbl_numeral_examples:
  "dbl 10000000 = 10000000" "dbl 2200 = 2200" "dbl 22000000000 = 22000000000"
  using dbl_of_int [of 10000000] dbl_of_int [of 2200] dbl_of_int [of 22000000000] by simp_all

text \<open>A quotient of doubles multiplied with a double: two roundings.\<close>

lemma d_mul_d_div_error:
  assumes q: "2 powi (- 1021) \<le> a / b" and c: "1 \<le> c"
  shows "\<bar>d_mul (d_div a b) c - a / b * c\<bar> \<le> (a / b * c) * 3 / 2 ^ 53"
proof -
  define q where "q = a / b"
  define q1 where "q1 = dbl q"
  define p0 where "p0 = q1 * c"
  define p1 where "p1 = dbl p0"
  define eps :: real where "eps = 1 / 2 ^ 53"
  have eps: "0 < eps" "eps \<le> 1 / 2"
    by (simp_all add: eps_def)
  define L1 :: real where "L1 = 2 powi (- 1021)"
  define L2 :: real where "L2 = 2 powi (- 1022)"
  have "(2::real) powi (- 1022 + 1) = 2 powi (- 1022) * 2"
    by (rule power_int_add_1) simp
  moreover have "(- 1022 + 1 :: int) = - 1021"
    by simp
  ultimately have L12: "L1 = L2 * 2"
    unfolding L1_def L2_def by (simp only:)
  have L2pos: "0 < L2"
    unfolding L2_def by (rule zero_less_power_int) simp
  have q0: "0 < q" "L1 \<le> q"
    using q L2pos L12 unfolding q_def L1_def [symmetric] by linarith+
  have "L2 \<le> \<bar>q\<bar>"
    using q0 L12 L2pos by linarith
  then have "\<bar>q1 - q\<bar> \<le> \<bar>q\<bar> / 2 ^ 53"
    unfolding q1_def L2_def by (rule dbl_error)
  then have e1: "\<bar>q1 - q\<bar> \<le> q * eps"
    using q0(1) by (simp add: eps_def)
  have "q * eps \<le> q * (1 / 2)"
    using q0(1) eps(2) by (simp only: mult_le_cancel_left_pos)
  then have q1l: "q / 2 \<le> q1" "q1 \<le> q + q * eps"
    using e1 by linarith+
  have c0: "0 < c"
    using c by linarith
  have "q1 * 1 \<le> q1 * c"
    using c q1l(1) q0(1) by (intro mult_left_mono) linarith+
  then have "L2 \<le> \<bar>p0\<bar>"
    using q1l(1) q0(2) L12 L2pos unfolding p0_def by linarith
  then have "\<bar>p1 - p0\<bar> \<le> \<bar>p0\<bar> / 2 ^ 53"
    unfolding p1_def L2_def by (rule dbl_error)
  moreover have p0pos: "0 \<le> p0"
    using q1l(1) q0(1) c0 by (simp add: p0_def)
  ultimately have e2: "\<bar>p1 - p0\<bar> \<le> p0 * eps"
    by (simp add: eps_def)
  have "\<bar>q1 - q\<bar> * c \<le> q * eps * c"
    using e1 c0 by (simp only: mult_le_cancel_right_pos)
  moreover have "\<bar>q1 - q\<bar> * c = \<bar>p0 - q * c\<bar>"
  proof -
    have "\<bar>(q1 - q) * c\<bar> = \<bar>q1 - q\<bar> * \<bar>c\<bar>"
      by (rule abs_mult)
    moreover have "(q1 - q) * c = p0 - q * c"
      by (simp add: p0_def left_diff_distrib)
    moreover have "\<bar>c\<bar> = c"
      using c0 by simp
    ultimately show ?thesis
      by simp
  qed
  ultimately have e3: "\<bar>p0 - q * c\<bar> \<le> q * c * eps"
    by (simp add: mult.commute mult.left_commute)
  have "q1 * c \<le> (q + q * eps) * c"
    using q1l(2) c0 by (simp only: mult_le_cancel_right_pos)
  then have "p0 \<le> q * c + q * c * eps"
    by (simp add: p0_def algebra_simps)
  define t where "t = q * c * eps"
  have t0: "0 \<le> t"
    using q0(1) c0 eps(1) by (simp add: t_def)
  have "p0 * eps \<le> (q * c + t) * eps"
    using \<open>p0 \<le> q * c + q * c * eps\<close> eps(1) unfolding t_def
    by (simp only: mult_le_cancel_right_pos)
  also have "(q * c + t) * eps = t + t * eps"
    by (simp add: t_def algebra_simps)
  finally have A: "p0 * eps \<le> t + t * eps" .
  have B: "t * eps \<le> t * (1 / 2)"
    using eps(2) t0 by (rule mult_left_mono)
  have e3': "\<bar>p0 - q * c\<bar> \<le> t"
    using e3 by (simp add: t_def)
  have "\<bar>p1 - q * c\<bar> \<le> t * 3"
    using e2 e3' A B t0 by linarith
  then have "\<bar>p1 - q * c\<bar> \<le> q * c * eps * 3"
    by (simp add: t_def)
  then show ?thesis
    by (simp add: p1_def p0_def q1_def q_def d_mul_def d_div_def eps_def)
qed


text \<open>The warm-up time of a first-order filter in ticks, as lines 72 to 75 and 179 compute
  it in doubles.\<close>

lemma warmup_ticks_double:
  assumes f: "1 / 1000000 \<le> f" "f \<le> 1000000000"
  shows "\<lfloor>10000000 / f\<rfloor> - 1 \<le> c_longlong (d_mul (d_div 1 f) (d_of_int 10000000))
       \<and> c_longlong (d_mul (d_div 1 f) (d_of_int 10000000)) \<le> \<lceil>10000000 / f\<rceil>
       \<and> 0 \<le> c_longlong (d_mul (d_div 1 f) (d_of_int 10000000))"
proof -
  define x where "x = 1 / f * 10000000"
  define p1 where "p1 = d_mul (d_div 1 f) 10000000"
  have f0: "0 < f"
    using f(1) by simp
  have ex: "d_of_int 10000000 = 10000000"
    using d_of_int_exact [of 10000000] by simp
  have qlow: "2 powi (- 1021) \<le> 1 / f"
  proof -
    have "(2::real) powi (- 1021) \<le> 2 powi (- 30)"
      by (rule power_int_increasing) simp_all
    also have "\<dots> = 1 / 2 ^ 30"
      by (simp add: power_int_minus field_simps)
    also have "\<dots> \<le> 1 / 1000000000"
      by simp
    also have "\<dots> \<le> 1 / f"
      using f(2) f0 by (intro divide_left_mono) simp_all
    finally show ?thesis .
  qed
  have err: "\<bar>p1 - x\<bar> \<le> x * 3 / 2 ^ 53"
    unfolding p1_def x_def using qlow by (rule d_mul_d_div_error) simp
  have xb: "1 / 100 \<le> x" "x \<le> 10000000000000"
  proof -
    have "1 / 1000000000 \<le> 1 / f"
      using f(2) f0 by (intro divide_left_mono) simp_all
    then show "1 / 100 \<le> x"
      by (simp add: x_def)
    have "1 / f \<le> 1 / (1 / 1000000)"
      using f(1) by (intro divide_left_mono) simp_all
    then show "x \<le> 10000000000000"
      by (simp add: x_def)
  qed
  have s1: "x * 3 / 2 ^ 53 \<le> x / 2"
    using xb(1) by simp
  have "x * 3 / 2 ^ 53 \<le> 10000000000000 * 3 / 2 ^ 53"
    using xb(2) by (intro divide_right_mono) simp_all
  also have "\<dots> \<le> (1 / 2 :: real)"
    by simp
  finally have s2: "x * 3 / 2 ^ 53 \<le> 1 / 2" .
  have near: "x / 2 \<le> p1" "p1 < x + 1" "x - 1 \<le> p1"
    using err s1 s2 by linarith+
  have "0 \<le> p1" "p1 < 9223372036854775808"
    using near xb by linarith+
  then have c: "c_longlong p1 = \<lfloor>p1\<rfloor>"
    by (simp add: c_longlong_def c_trunc_def)
  have "\<lfloor>x - 1\<rfloor> \<le> \<lfloor>p1\<rfloor>"
    using near(3) by (rule floor_mono)
  then have l: "\<lfloor>x\<rfloor> - 1 \<le> \<lfloor>p1\<rfloor>"
    by simp
  have "p1 < real_of_int \<lceil>x\<rceil> + 1"
    using near(2) le_of_int_ceiling [of x] by linarith
  then have u: "\<lfloor>p1\<rfloor> \<le> \<lceil>x\<rceil>"
    by (simp add: floor_le_iff)
  have z: "0 \<le> \<lfloor>p1\<rfloor>"
    using \<open>0 \<le> p1\<close> by simp
  have xx: "x = 10000000 / f"
    by (simp add: x_def)
  show ?thesis
    using l u z unfolding ex c [unfolded p1_def] xx p1_def by simp
qed

text \<open>The values at 3 Hz, at the double next to 0.1 Hz, and at 1/2200 Hz.\<close>

lemma dbl_third: "dbl (1 / 3) = 6004799503160661 / 18014398509481984"
  by (simp add: dbl_eval [where e = "- 2"] round_even_def)

lemma warmup_ticks_third: "c_longlong (d_mul (d_div 1 3) (d_of_int 10000000)) = 3333333"
proof -
  have ex: "d_of_int 10000000 = 10000000"
    using d_of_int_exact [of 10000000] by simp
  show ?thesis
    by (simp add: ex d_mul_def d_div_def dbl_third dbl_eval [where e = 21] round_even_def
        c_longlong_def c_trunc_def)
qed

lemma dbl_tenth_inverse: "dbl (36028797018963968 / 3602879701896397) = 10"
  by (simp add: dbl_eval [where e = 3] round_even_def)

lemma warmup_ticks_tenth:
  "c_longlong (d_mul (d_div 1 (3602879701896397 / 36028797018963968)) (d_of_int 10000000))
   = 100000000"
proof -
  have ex: "d_of_int 10000000 = 10000000" "dbl 100000000 = 100000000"
    using d_of_int_exact [of 10000000] dbl_of_int [of 100000000] by simp_all
  show ?thesis
    by (simp add: ex d_mul_def d_div_def dbl_tenth_inverse c_longlong_def c_trunc_def)
qed


text \<open>1,500,000 ticks of a record of 5,500,000 ticks with 110 samples are 30 samples; the
  doubles give 29.\<close>

lemma dbl_three_elevenths: "dbl (3 / 11) = 1228254443828317 / 4503599627370496"
  by (simp add: dbl_eval [where e = "- 2"] round_even_def)

lemma frac_samples_one_less:
  "c_int (d_mul (d_div (d_of_int 1500000) (d_of_int 5500000)) (d_of_int 110)) = 29"
proof -
  have ex: "d_of_int 1500000 = 1500000" "d_of_int 5500000 = 5500000" "d_of_int 110 = 110"
    using d_of_int_exact [of 1500000] d_of_int_exact [of 5500000] d_of_int_exact [of 110]
    by simp_all
  show ?thesis
    by (simp add: ex d_mul_def d_div_def dbl_three_elevenths dbl_eval [where e = 4] round_even_def
        c_int_def c_trunc_def)
qed
section \<open>Helper facts on the phases of setup\_viewbuf\<close>

lemma has_filters_plain [simp]: "\<not> has_filters (plain_comp hi p)"
  by (simp add: has_filters_def plain_comp_def)

lemma comp_pre_time_no_filters:
  "\<not> has_filters c \<Longrightarrow> comp_pre_time lib p c = p"
  by (simp add: comp_pre_time_def has_filters_def)

lemma foldl_comp_pre_time_no_filters:
  "\<forall>c \<in> set cs. \<not> has_filters c \<Longrightarrow> foldl (comp_pre_time lib) p cs = p"
  by (induction cs arbitrary: p) (simp_all add: comp_pre_time_no_filters)

lemma set_prefiltertime_no_filters:
  "\<not> has_filters c \<Longrightarrow> set_prefiltertime p hs c = hs"
  by (simp add: set_prefiltertime_def)

lemma foldl_set_prefiltertime_no_filters:
  "\<forall>c \<in> set cs. \<not> has_filters c \<Longrightarrow> foldl (set_prefiltertime p) hs cs = hs"
  by (induction cs arbitrary: hs) (simp_all add: set_prefiltertime_no_filters)

lemma has_filters_reset_ravg [simp]:
  "has_filters (reset_ravg_filters lib c) = has_filters c"
  by (simp add: has_filters_def reset_ravg_filters_def)

lemma c_trunc_nonneg: "0 \<le> x \<Longrightarrow> c_trunc x = \<lfloor>x\<rfloor>"
  by (simp add: c_trunc_def)





lemma read_into_viewbuf_fields [simp]:
  "signalcomp (snd (read_into_viewbuf hdl pos bufpos n s)) = signalcomp s"
  "edfheaderlist (snd (read_into_viewbuf hdl pos bufpos n s)) = edfheaderlist s"
  "pagetime (snd (read_into_viewbuf hdl pos bufpos n s)) = pagetime s"
  "files (snd (read_into_viewbuf hdl pos bufpos n s)) = files s"
  "messages (snd (read_into_viewbuf hdl pos bufpos n s)) = messages s"
  "live_stream_active (snd (read_into_viewbuf hdl pos bufpos n s)) = live_stream_active s"
  "freads (snd (read_into_viewbuf hdl pos bufpos n s)) = freads s @ [(hdl, pos, n)]"
  "viewbuf (snd (read_into_viewbuf hdl pos bufpos n s))
     = map_option (\<lambda>buf. mem_write buf bufpos (snd (fread_item (files s hdl) pos n))) (viewbuf s)"
  "fst (read_into_viewbuf hdl pos bufpos n s) = fst (fread_item (files s hdl) pos n)"
  by (simp_all add: read_into_viewbuf_def split: prod.splits)



section \<open>The warm-up duration\<close>

lemma d_div_one_pos:
  assumes "1 / 1000000 \<le> f" "f \<le> 1000000000"
  shows "0 < d_div 1 f"
proof -
  have f0: "0 < f"
    using assms(1) by simp
  define q where "q = 1 / f"
  have "(2::real) powi (- 1022) \<le> 2 powi (- 30)"
    by (rule power_int_increasing) simp_all
  also have "\<dots> = 1 / 2 ^ 30"
    by (simp add: power_int_minus field_simps)
  also have "\<dots> \<le> 1 / 1000000000"
    by simp
  also have "\<dots> \<le> 1 / f"
    using assms(2) f0 by (intro divide_left_mono) simp_all
  finally have "2 powi (- 1022) \<le> \<bar>1 / f\<bar>"
    using f0 by simp
  then have "\<bar>dbl (1 / f) - 1 / f\<bar> \<le> \<bar>1 / f\<bar> / 2 ^ 53"
    by (rule dbl_error)
  then have e: "\<bar>dbl q - q\<bar> \<le> \<bar>q\<bar> / 2 ^ 53"
    by (simp only: q_def)
  have q: "0 < q"
    using f0 by (simp add: q_def)
  then have "\<bar>q\<bar> / 2 ^ 53 \<le> q / 2"
    by simp
  then have "0 < dbl q"
    using e q by linarith
  then show ?thesis
    by (simp add: d_div_def q_def)
qed

lemma comp_pre_time_first_order:
  assumes "only_first_order c flt" "0 < d_div 1 (cutoff_frequency flt)"
  shows "comp_pre_time lib 0 c = d_div 1 (cutoff_frequency flt)"
  using assms by (simp add: comp_pre_time_def only_first_order_def raise_pre_time_def)

lemma prefiltertime_first_order_aux:
  assumes cs: "signalcomp s = xs @ c # ys"
    and others: "\<forall>x \<in> set xs \<union> set ys. \<not> has_filters x"
    and only: "only_first_order c flt"
    and pos: "0 < d_div 1 (cutoff_frequency flt)"
    and nonneg: "0 \<le> c_longlong (d_mul (d_div 1 (cutoff_frequency flt)) (d_of_int TIME_FIXP_SCALING))"
    and idx: "edfhdr c < length (edfheaderlist s)"
  shows "prefiltertime (edfheaderlist (calc_prefiltertimes lib s) ! edfhdr c)
         = min (c_longlong (d_mul (d_div 1 (cutoff_frequency flt)) (d_of_int TIME_FIXP_SCALING)))
             (max 0 (viewtime (edfheaderlist s ! edfhdr c)))"
proof -
  let ?f = "cutoff_frequency flt"
  let ?hs0 = "map (\<lambda>h. h \<lparr> prefiltertime := 0 \<rparr>) (edfheaderlist s)"
  let ?R = "reset_ravg_filters lib"
  define pt where "pt = d_div 1 ?f"
  have hf: "has_filters c"
    using only by (simp add: has_filters_def only_first_order_def)
  have pre: "foldl (comp_pre_time lib) 0 (signalcomp s) = pt"
  proof -
    have "foldl (comp_pre_time lib) 0 (xs @ c # ys)
        = foldl (comp_pre_time lib) (comp_pre_time lib (foldl (comp_pre_time lib) 0 xs) c) ys"
      by simp
    also have "\<dots> = comp_pre_time lib 0 c"
      using others by (simp add: foldl_comp_pre_time_no_filters)
    finally show ?thesis
      using only pos by (simp add: cs comp_pre_time_first_order pt_def)
  qed
  have ex: "list_ex has_filters (map ?R (signalcomp s))"
    using hf by (auto simp add: cs list_ex_iff)
  have hs: "foldl (set_prefiltertime pt) ?hs0 (map ?R (signalcomp s))
      = set_prefiltertime pt ?hs0 (?R c)"
  proof -
    have "foldl (set_prefiltertime pt) ?hs0 (map ?R xs @ ?R c # map ?R ys)
        = foldl (set_prefiltertime pt)
            (set_prefiltertime pt (foldl (set_prefiltertime pt) ?hs0 (map ?R xs)) (?R c))
            (map ?R ys)"
      by simp
    also have "\<dots> = set_prefiltertime pt ?hs0 (?R c)"
      using others by (simp add: foldl_set_prefiltertime_no_filters)
    finally show ?thesis by (simp add: cs)
  qed
  have e: "edfhdr (?R c) = edfhdr c"
    by (simp add: reset_ravg_filters_def)
  define p where "p = c_longlong (d_mul pt (d_of_int TIME_FIXP_SCALING))"
  define v where "v = viewtime (edfheaderlist s ! edfhdr c)"
  have nn: "0 \<le> p"
    using nonneg by (simp add: p_def pt_def)
  have "set_prefiltertime pt ?hs0 (?R c) ! edfhdr c
      = (?hs0 ! edfhdr c) \<lparr> prefiltertime := (if p > v then (if v < 0 then 0 else v) else p) \<rparr>"
    unfolding set_prefiltertime_def Let_def hdr_of_def e p_def v_def
    using idx hf by simp
  then have "prefiltertime (set_prefiltertime pt ?hs0 (?R c) ! edfhdr c)
      = (if p > v then (if v < 0 then 0 else v) else p)"
    by simp
  also have "\<dots> = min p (max 0 v)"
    using nn by (simp add: min_def max_def)
  finally have "prefiltertime (set_prefiltertime pt ?hs0 (?R c) ! edfhdr c) = min p (max 0 v)" .
  then have "prefiltertime (edfheaderlist (calc_prefiltertimes lib s) ! edfhdr c) = min p (max 0 v)"
    by (simp add: calc_prefiltertimes_def Let_def pre ex hs)
  then show ?thesis
    by (simp add: p_def v_def pt_def)
qed

text \<open>
  Claim C4, as amended. When one composition has a first-order filter of cut-off frequency
  \<open>f\<close> as its only filter, with \<open>f\<close> between \<open>10\<^sup>-\<^sup>6\<close> and \<open>10\<^sup>9\<close> Hz, and no other composition
  has a filter, the warm-up time of its recording is the product of \<^verbatim>\<open>1.0 / f\<close> and
  \<open>10,000,000\<close>, computed in doubles and truncated to \<^verbatim>\<open>long long\<close>, but not more than the
  view time, and 0 when the view time is negative. The truncated product is not below
  \<open>10,000,000 / f\<close> rounded down less 1 and not above \<open>10,000,000 / f\<close> rounded up.
\<close>

theorem prefiltertime_first_order:
  assumes "signalcomp s = xs @ c # ys"
    and "\<forall>x \<in> set xs \<union> set ys. \<not> has_filters x"
    and "only_first_order c flt"
    and "1 / 1000000 \<le> cutoff_frequency flt"
    and "cutoff_frequency flt \<le> 1000000000"
    and "edfhdr c < length (edfheaderlist s)"
  shows "prefiltertime (edfheaderlist (calc_prefiltertimes lib s) ! edfhdr c)
         = min (c_longlong (d_mul (d_div 1 (cutoff_frequency flt)) (d_of_int TIME_FIXP_SCALING)))
             (max 0 (viewtime (edfheaderlist s ! edfhdr c)))
       \<and> \<lfloor>10000000 / cutoff_frequency flt\<rfloor> - 1
           \<le> c_longlong (d_mul (d_div 1 (cutoff_frequency flt)) (d_of_int TIME_FIXP_SCALING))
       \<and> c_longlong (d_mul (d_div 1 (cutoff_frequency flt)) (d_of_int TIME_FIXP_SCALING))
           \<le> \<lceil>10000000 / cutoff_frequency flt\<rceil>"
proof -
  note w = warmup_ticks_double [OF assms(4,5), folded TIME_FIXP_SCALING_def]
  have "prefiltertime (edfheaderlist (calc_prefiltertimes lib s) ! edfhdr c)
         = min (c_longlong (d_mul (d_div 1 (cutoff_frequency flt)) (d_of_int TIME_FIXP_SCALING)))
             (max 0 (viewtime (edfheaderlist s ! edfhdr c)))"
    using assms(1,2,3) d_div_one_pos [OF assms(4,5)] _ assms(6)
    by (rule prefiltertime_first_order_aux) (use w in blast)
  then show ?thesis
    using w by blast
qed

lemma lowpass_example_facts:
  "signalcomp lowpass_window_example = [] @ lowpass_comp_example # []"
  "only_first_order lowpass_comp_example (first_order_example 3)"
  "edfhdr lowpass_comp_example = 0"
  "edfheaderlist lowpass_window_example = [hdr_example 1 100000000]"
  "cutoff_frequency (first_order_example fc) = fc"
  "viewtime (hdr_example hdl vt) = vt"
  by (simp_all add: lowpass_window_example_def lowpass_comp_example_def window_example_def
      plain_comp_def only_first_order_def first_order_example_def hdr_example_def)

lemma tenth_hertz_example_facts:
  "signalcomp tenth_hertz_window_example
     = [] @ ((plain_comp 0 param_example) \<lparr> filter_arr := [first_order_example tenth_hertz] \<rparr>) # []"
  "only_first_order ((plain_comp 0 param_example) \<lparr> filter_arr := [first_order_example tenth_hertz] \<rparr>)
     (first_order_example tenth_hertz)"
  "edfhdr ((plain_comp 0 param_example) \<lparr> filter_arr := [first_order_example tenth_hertz] \<rparr>) = 0"
  "edfheaderlist tenth_hertz_window_example = [hdr_example 1 200000000]"
  "1 / 1000000 \<le> cutoff_frequency (first_order_example tenth_hertz)"
  "cutoff_frequency (first_order_example tenth_hertz) \<le> 1000000000"
  by (simp_all add: tenth_hertz_window_example_def window_example_def
      plain_comp_def only_first_order_def tenth_hertz_def first_order_example_def)

theorem prefiltertime_first_order_witness:
  "prefiltertime (edfheaderlist (calc_prefiltertimes lib_standin lowpass_window_example) ! 0)
     = 3333333
   \<and> prefiltertime (edfheaderlist (calc_prefiltertimes lib_standin tenth_hertz_window_example) ! 0)
     = 100000000"
proof -
  have "prefiltertime (edfheaderlist (calc_prefiltertimes lib_standin lowpass_window_example)
                        ! edfhdr lowpass_comp_example)
      = min (c_longlong (d_mul (d_div 1 (cutoff_frequency (first_order_example 3)))
                           (d_of_int TIME_FIXP_SCALING)))
          (max 0 (viewtime (edfheaderlist lowpass_window_example ! edfhdr lowpass_comp_example)))"
    by (rule conjunct1 [OF prefiltertime_first_order [where xs = "[]" and ys = "[]"]])
       (simp_all add: lowpass_example_facts)
  then have a: "prefiltertime (edfheaderlist (calc_prefiltertimes lib_standin lowpass_window_example) ! 0)
     = 3333333"
    using warmup_ticks_third by (simp add: lowpass_example_facts TIME_FIXP_SCALING_def)
  let ?c = "(plain_comp 0 param_example) \<lparr> filter_arr := [first_order_example tenth_hertz] \<rparr>"
  have "prefiltertime (edfheaderlist (calc_prefiltertimes lib_standin tenth_hertz_window_example)
                        ! edfhdr ?c)
      = min (c_longlong (d_mul (d_div 1 (cutoff_frequency (first_order_example tenth_hertz)))
                           (d_of_int TIME_FIXP_SCALING)))
          (max 0 (viewtime (edfheaderlist tenth_hertz_window_example ! edfhdr ?c)))"
    by (rule conjunct1 [OF prefiltertime_first_order
              [OF tenth_hertz_example_facts(1) _ tenth_hertz_example_facts(2)
                  tenth_hertz_example_facts(5) tenth_hertz_example_facts(6)]])
       (simp_all add: tenth_hertz_example_facts(3,4))
  then have b: "prefiltertime (edfheaderlist (calc_prefiltertimes lib_standin tenth_hertz_window_example) ! 0)
     = 100000000"
    using warmup_ticks_tenth
    by (simp add: tenth_hertz_example_facts lowpass_example_facts TIME_FIXP_SCALING_def tenth_hertz_def
        plain_comp_def)
  show ?thesis
    using a b by simp
qed

text \<open>The claim as stated asks for the value rounded up, \<open>3333334\<close> ticks for 3 Hz; the
  code yields \<open>3333333\<close>.\<close>

theorem prefiltertime_ceiling_counterexample:
  "prefiltertime (edfheaderlist (calc_prefiltertimes lib_standin lowpass_window_example) ! 0)
   \<noteq> min \<lceil>1 / cutoff_frequency (first_order_example 3) * 10000000\<rceil>
         (viewtime (edfheaderlist lowpass_window_example ! 0))"
proof -
  have "0 < d_div 1 (3::real)"
    by (simp add: d_div_def dbl_third)
  then have "prefiltertime (edfheaderlist (calc_prefiltertimes lib_standin lowpass_window_example)
                        ! edfhdr lowpass_comp_example)
      = min (c_longlong (d_mul (d_div 1 (cutoff_frequency (first_order_example 3)))
                           (d_of_int TIME_FIXP_SCALING)))
          (max 0 (viewtime (edfheaderlist lowpass_window_example ! edfhdr lowpass_comp_example)))"
    using warmup_ticks_third
    by (intro prefiltertime_first_order_aux [where xs = "[]" and ys = "[]"])
       (simp_all add: lowpass_example_facts TIME_FIXP_SCALING_def)
  then show ?thesis
    using warmup_ticks_third by (simp add: lowpass_example_facts TIME_FIXP_SCALING_def)
qed

section \<open>The reset sample of the Z-ratio filter\<close>













text \<open>
  The bound of two sample periods is reached. On the recording with records of 0.55
  seconds and 110 samples, with the warm-up buffer starting at 2.2 seconds, sample 360
  starts exactly at 4 seconds, and the doubles of lines 363 to 366 give the reset sample
  359.
\<close>

lemma zratio_reset_sample_one_early:
  "zratio_filter zratio_early_comp_example \<noteq> None
   \<and> prefilter_reset_sample (set_reset_sample [hdr_early_example] zratio_early_comp_example) = 359
   \<and> prefilter_starttime zratio_early_comp_example * 110 + 360 * 5500000 = 40000000 * 110"
proof -
  have z: "zratio_filter zratio_early_comp_example \<noteq> None"
    by (simp add: zratio_early_comp_example_def create_zratio_filter_def dblcmp_exact_def Let_def
        ZRATIO_EPOCH_LEN_def ZR_TIME_FIXP_SCALING_def signed_divide_int_def del: upt_rec_numeral)
  have f: "edfhdr zratio_early_comp_example = 0"
    "smp_per_record (edfparam_0 zratio_early_comp_example) = 110"
    "prefilter_starttime zratio_early_comp_example = 22000000"
    "long_data_record_duration hdr_early_example = 5500000"
    by (simp_all add: zratio_early_comp_example_def plain_comp_def param_early_example_def
        hdr_early_example_def)
  have "prefilter_reset_sample (set_reset_sample [hdr_early_example] zratio_early_comp_example) = 359"
    using z frac_samples_one_less
    by (simp add: set_reset_sample_def Let_def hdr_of_def f TIME_FIXP_SCALING_def
        signed_divide_int_def signed_modulo_int_def)
  then show ?thesis
    using z by (simp add: f)
qed

section \<open>The reset of the ECG filter\<close>

lemma add_signal_ecg [simp]:
  "add_signal lib vb h (c \<lparr> ecg_filter := e \<rparr>) = add_signal lib vb h c"
  by (intro ext) (simp add: add_signal_def)

lemma byte_at_reset [simp]:
  "byte_at (lib \<lparr> reset_ecg_filter := g \<rparr>) = byte_at lib"
  by (intro ext) (simp add: byte_at_def split: option.splits)

lemma edf_sample_reset [simp]:
  "edf_sample (lib \<lparr> reset_ecg_filter := g \<rparr>) = edf_sample lib"
  by (intro ext) (simp add: edf_sample_def)

lemma bdf_sample_reset [simp]:
  "bdf_sample (lib \<lparr> reset_ecg_filter := g \<rparr>) = bdf_sample lib"
  by (intro ext) (simp add: bdf_sample_def)

lemma add_signal_reset [simp]:
  "add_signal (lib \<lparr> reset_ecg_filter := g \<rparr>) = add_signal lib"
  by (intro ext) (simp add: add_signal_def Let_def split: prod.splits)

lemma run_fid_reset [simp]:
  "run_fid (lib \<lparr> reset_ecg_filter := g \<rparr>) = run_fid lib"
  by (intro ext) (simp add: run_fid_def)

lemma filters_before_ecg_reset [simp]:
  "filters_before_ecg (lib \<lparr> reset_ecg_filter := g \<rparr>) = filters_before_ecg lib"
  by (intro ext) (simp add: filters_before_ecg_def)










section \<open>The visible window: general facts\<close>


subsection \<open>Fields after the buffer operations\<close>

lemma zero_viewbuf_fields [simp]:
  "signalcomp (zero_viewbuf p n s) = signalcomp s"
  "edfheaderlist (zero_viewbuf p n s) = edfheaderlist s"
  "pagetime (zero_viewbuf p n s) = pagetime s"
  "files (zero_viewbuf p n s) = files s"
  "messages (zero_viewbuf p n s) = messages s"
  "freads (zero_viewbuf p n s) = freads s"
  "live_stream_active (zero_viewbuf p n s) = live_stream_active s"
  "viewbuf (zero_viewbuf p n s) = map_option (\<lambda>buf. mem_zero buf p n) (viewbuf s)"
  by (simp_all add: zero_viewbuf_def)

lemma view_clear_tail_fields [simp]:
  "signalcomp (view_clear_tail h c s) = signalcomp s"
  "edfheaderlist (view_clear_tail h c s) = edfheaderlist s"
  "pagetime (view_clear_tail h c s) = pagetime s"
  "files (view_clear_tail h c s) = files s"
  "messages (view_clear_tail h c s) = messages s"
  "freads (view_clear_tail h c s) = freads s"
  "live_stream_active (view_clear_tail h c s) = live_stream_active s"
  by (simp_all add: view_clear_tail_def)

lemma add_sample_start_fields [simp]:
  "edfheaderlist (add_sample_start i s) = edfheaderlist s"
  "pagetime (add_sample_start i s) = pagetime s"
  "files (add_sample_start i s) = files s"
  "messages (add_sample_start i s) = messages s"
  "freads (add_sample_start i s) = freads s"
  "viewbuf (add_sample_start i s) = viewbuf s"
  "live_stream_active (add_sample_start i s) = live_stream_active s"
  by (simp_all add: add_sample_start_def)

lemma free_viewbuf_fields [simp]:
  "signalcomp (free_viewbuf s) = signalcomp s"
  "edfheaderlist (free_viewbuf s) = edfheaderlist s"
  "pagetime (free_viewbuf s) = pagetime s"
  "files (free_viewbuf s) = files s"
  "messages (free_viewbuf s) = messages s"
  "freads (free_viewbuf s) = freads s"
  "live_stream_active (free_viewbuf s) = live_stream_active s"
  "viewbuf (free_viewbuf s) = None"
  by (simp_all add: free_viewbuf_def)

lemma clamp_pagetime_fields [simp]:
  "signalcomp (clamp_pagetime s) = signalcomp s"
  "edfheaderlist (clamp_pagetime s) = edfheaderlist s"
  "files (clamp_pagetime s) = files s"
  "messages (clamp_pagetime s) = messages s"
  "freads (clamp_pagetime s) = freads s"
  "viewbuf (clamp_pagetime s) = viewbuf s"
  "live_stream_active (clamp_pagetime s) = live_stream_active s"
  "pagetime (clamp_pagetime s) = min (pagetime s) TIME_FIXP_SCALING"
  by (simp_all add: clamp_pagetime_def)

subsection \<open>One round of the read loop of the visible window\<close>

text \<open>The state after a completed round, written out.\<close>

lemma view_read_comp_Inr:
  assumes "view_read_comp lib i s = Inr s'"
  shows "s' = (let c = signalcomp s ! i;
                   h = hdr_of (edfheaderlist s) c;
                   skip = is_shared (edfheaderlist s) (signalcomp s) i
               in s \<lparr> signalcomp := (signalcomp s)
                         [i := c \<lparr> sample_stop := view_sample_stop h c + sample_start c \<rparr>],
                      viewbuf :=
                        (if skip then viewbuf s
                         else if view_dif h \<le> 0 then viewbuf (view_clear_tail h c s)
                         else map_option
                                (\<lambda>buf. mem_write buf (viewbufoffset c)
                                   (snd (fread_item (files s (file_hdl h))
                                           (hdrsize h + view_first_record h * recordsize h)
                                           (view_readsize h c))))
                                (viewbuf (view_clear_tail h c s))),
                      freads :=
                        (if skip \<or> view_dif h \<le> 0 then freads s
                         else freads s @ [(file_hdl h, hdrsize h + view_first_record h * recordsize h,
                                           view_readsize h c)]) \<rparr>)"
proof -
  let ?c = "signalcomp s ! i"
  let ?h = "hdr_of (edfheaderlist s) ?c"
  let ?skip = "is_shared (edfheaderlist s) (signalcomp s) i"
  define s1 where "s1 = (if ?skip then s else view_clear_tail ?h ?c s)"
  define s2 where "s2 = s1 \<lparr> signalcomp := (signalcomp s1) [i := ?c \<lparr> sample_stop := view_sample_stop ?h ?c \<rparr>] \<rparr>"
  define rd where "rd = read_into_viewbuf (file_hdl ?h) (hdrsize ?h + view_first_record ?h * recordsize ?h)
                  (viewbufoffset ?c) (view_readsize ?h ?c) s2"
  have unfold: "view_read_comp lib i s =
      (if ?skip \<or> view_dif ?h \<le> 0 then Inr (add_sample_start i s2)
       else if fst rd then Inr (add_sample_start i (snd rd))
       else Inl (fail_exit lib (msg_read_error (if i = 0 then 5 else 6)) (snd rd)))"
    unfolding view_read_comp_def Let_def s1_def s2_def rd_def by (simp only: case_prod_beta)
  have sc1: "signalcomp s1 = signalcomp s"
    by (simp add: s1_def)
  have upd: "(xs [i := a]) [i := b] = xs [i := b]" for xs :: "'a signalcompblock list" and a b
    by simp
  have fin: "add_sample_start i t = t \<lparr> signalcomp := (signalcomp s)
          [i := ?c \<lparr> sample_stop := view_sample_stop ?h ?c + sample_start ?c \<rparr>] \<rparr>"
    if "signalcomp t = (signalcomp s) [i := ?c \<lparr> sample_stop := view_sample_stop ?h ?c \<rparr>]" for t
  proof (cases "i < length (signalcomp s)")
    case True
    then show ?thesis
      by (simp add: add_sample_start_def that)
  next
    case False
    then have "length (signalcomp s) \<le> i" by simp
    then show ?thesis
      by (simp add: add_sample_start_def that list_update_beyond)
  qed
  have sc2: "signalcomp s2 = (signalcomp s) [i := ?c \<lparr> sample_stop := view_sample_stop ?h ?c \<rparr>]"
    by (simp add: s2_def sc1)
  show ?thesis
  proof (cases "?skip \<or> view_dif ?h \<le> 0")
    case True
    then have "s' = add_sample_start i s2"
      using assms unfold by simp
    then have "s' = s2 \<lparr> signalcomp := (signalcomp s)
          [i := ?c \<lparr> sample_stop := view_sample_stop ?h ?c + sample_start ?c \<rparr>] \<rparr>"
      using fin [OF sc2] by simp
    then show ?thesis
      using True by (auto simp add: Let_def s2_def s1_def view_clear_tail_def zero_viewbuf_def)
  next
    case False
    define V where "V = viewbuf (view_clear_tail ?h ?c s)"
    have vc: "view_clear_tail ?h ?c s = s \<lparr> viewbuf := V \<rparr>"
      by (simp add: V_def view_clear_tail_def zero_viewbuf_def)
    have "s' = add_sample_start i (snd rd)"
      using False assms unfold by (simp split: if_splits)
    moreover have "signalcomp (snd rd) = (signalcomp s) [i := ?c \<lparr> sample_stop := view_sample_stop ?h ?c \<rparr>]"
      by (simp add: rd_def sc2)
    ultimately have "s' = (snd rd) \<lparr> signalcomp := (signalcomp s)
          [i := ?c \<lparr> sample_stop := view_sample_stop ?h ?c + sample_start ?c \<rparr>] \<rparr>"
      using fin by simp
    also have "snd rd = s \<lparr> viewbuf := map_option
                                (\<lambda>buf. mem_write buf (viewbufoffset ?c)
                                   (snd (fread_item (files s (file_hdl ?h))
                                           (hdrsize ?h + view_first_record ?h * recordsize ?h)
                                           (view_readsize ?h ?c)))) V,
                             freads := freads s @ [(file_hdl ?h, hdrsize ?h + view_first_record ?h * recordsize ?h,
                                           view_readsize ?h ?c)],
                             signalcomp := (signalcomp s) [i := ?c \<lparr> sample_stop := view_sample_stop ?h ?c \<rparr>] \<rparr>"
      using False by (simp add: rd_def read_into_viewbuf_def s2_def s1_def vc split: prod.splits)
    finally show ?thesis
      using False by (simp add: Let_def V_def)
  qed
qed


lemma fail_exit_standin_fields [simp]:
  "signalcomp (fail_exit lib_standin m s) = []"
  "messages (fail_exit lib_standin m s) = messages s @ [m]"
  "viewbuf (fail_exit lib_standin m s) = None"
  "signalcomp (fail_exit lib32_standin m s) = []"
  "messages (fail_exit lib32_standin m s) = messages s @ [m]"
  "signalcomp (fail_exit lib_keep_standin m s) = signalcomp s"
  "messages (fail_exit lib_keep_standin m s) = messages s @ [m]"
  "viewbuf (fail_exit lib_keep_standin m s) = viewbuf s"
  by (simp_all add: fail_exit_def lib_standin_def lib32_standin_def lib_keep_standin_def
      remove_all_signals_standin_def)




subsection \<open>The capacity exit\<close>





subsection \<open>Windows with one composition\<close>







lemma window_example_fields [simp]:
  "edfheaderlist (window_example hs cs pt fs) = hs"
  "signalcomp (window_example hs cs pt fs) = cs"
  "pagetime (window_example hs cs pt fs) = pt"
  "files (window_example hs cs pt fs) = fs"
  "messages (window_example hs cs pt fs) = []"
  "freads (window_example hs cs pt fs) = []"
  "viewbuf (window_example hs cs pt fs) = None"
  by (simp_all add: window_example_def)

lemma plain_comp_fields [simp]:
  "edfhdr (plain_comp hi p) = hi"
  "edfparam_0 (plain_comp hi p) = p"
  "ravg_filter (plain_comp hi p) = []"
  "records_in_viewbuf (plain_comp hi p) = 0"
  "viewbufsize (plain_comp hi p) = 0"
  by (simp_all add: plain_comp_def)

lemma hdr_big_example_fields [simp]:
  "viewtime hdr_big_example = 0"
  "prefiltertime hdr_big_example = 0"
  "long_data_record_duration hdr_big_example = 10000000"
  "recordsize hdr_big_example = 2000000"
  "datarecords hdr_big_example = 100000"
  "hdrsize hdr_big_example = 512"
  "file_hdl hdr_big_example = 7"
  by (simp_all add: hdr_big_example_def)




subsection \<open>Allocation\<close>






subsection \<open>A failed read\<close>

lemma prefilter_reads_read_failure_aux:
  assumes "\<not> is_shared (edfheaderlist s) (signalcomp s) i"
    and "0 < viewbufsize (signalcomp s ! i)"
    and "prefilter_first_record (hdr_of (edfheaderlist s) (signalcomp s ! i))
           < datarecords (hdr_of (edfheaderlist s) (signalcomp s ! i))"
    and "\<not> fst (fread_item (files s (file_hdl (hdr_of (edfheaderlist s) (signalcomp s ! i))))
                 (hdrsize (hdr_of (edfheaderlist s) (signalcomp s ! i))
                    + prefilter_first_record (hdr_of (edfheaderlist s) (signalcomp s ! i))
                      * recordsize (hdr_of (edfheaderlist s) (signalcomp s ! i)))
                 (prefilter_readsize (hdr_of (edfheaderlist s) (signalcomp s ! i)) (signalcomp s ! i)))"
  shows "\<exists>s3. prefilter_reads lib (i # rest) s
               = Inl (remove_all_signals lib
                        (s3 \<lparr> live_stream_active := False,
                              messages := messages s @ [msg_read_error (if i = 0 then 2 else 3)] \<rparr>))
            \<and> (viewbuf s3 = None) = (viewbuf s = None)"
proof -
  let ?c = "signalcomp s ! i"
  let ?h = "hdr_of (edfheaderlist s) ?c"
  define s2 where "s2 = s \<lparr> signalcomp := (signalcomp s)
      [i := ?c \<lparr> prefilter_starttime := prefilter_first_record ?h * long_data_record_duration ?h,
                 viewbufsize := prefilter_readsize ?h ?c \<rparr>] \<rparr>"
  define rd where "rd = read_into_viewbuf (file_hdl ?h)
      (hdrsize ?h + prefilter_first_record ?h * recordsize ?h) (viewbufoffset ?c)
      (prefilter_readsize ?h ?c) s2"
  have u: "prefilter_read_comp lib i s =
      (if fst rd then Inr (snd rd)
       else Inl (fail_exit lib (msg_read_error (if i = 0 then 2 else 3)) (snd rd)))"
    unfolding prefilter_read_comp_def Let_def rd_def s2_def using assms(1,2,3)
    by (simp only: if_False if_True simp_thms case_prod_beta)
  have f: "\<not> fst rd"
    using assms(4) by (simp add: rd_def s2_def)
  have "messages (snd rd) = messages s" "(viewbuf (snd rd) = None) = (viewbuf s = None)"
    by (simp_all add: rd_def s2_def)
  then show ?thesis
    using u f by (intro exI [of _ "snd rd"]) (simp add: fail_exit_def)
qed


lemma plan_view_comp_fields [simp]:
  "edfhdr (plan_view_comp pt hs c) = edfhdr c"
  "edfparam_0 (plan_view_comp pt hs c) = edfparam_0 c"
  "edfsignal (plan_view_comp pt hs c) = edfsignal c"
  "viewbufoffset (plan_view_comp pt hs c) = viewbufoffset c"
  "has_filters (plan_view_comp pt hs c) = has_filters c"
  by (simp_all add: plan_view_comp_def Let_def has_filters_def)

lemma plan_prefilter_comp_fields [simp]:
  "edfhdr (plan_prefilter_comp hs c) = edfhdr c"
  "edfparam_0 (plan_prefilter_comp hs c) = edfparam_0 c"
  "edfsignal (plan_prefilter_comp hs c) = edfsignal c"
  "viewbufoffset (plan_prefilter_comp hs c) = viewbufoffset c"
  "has_filters (plan_prefilter_comp hs c) = has_filters c"
  by (simp_all add: plan_prefilter_comp_def Let_def has_filters_def)

lemma hdr_example_fields [simp]:
  "prefiltertime (hdr_example hdl vt) = 0"
  "long_data_record_duration (hdr_example hdl vt) = 10000000"
  "recordsize (hdr_example hdl vt) = 512"
  "datarecords (hdr_example hdl vt) = 100"
  "hdrsize (hdr_example hdl vt) = 512"
  "file_hdl (hdr_example hdl vt) = hdl"
  "viewtime (hdr_example hdl vt) = vt"
  by (simp_all add: hdr_example_def)

lemma standin_malloc [simp]:
  "malloc_ok lib_standin n" "malloc_ok lib_keep_standin n" "malloc_ok lib32_standin n"
  "buffer_ceiling lib_standin = 137438953440" "buffer_ceiling lib_keep_standin = 137438953440"
  by (simp_all add: lib_standin_def lib_keep_standin_def lib32_standin_def buffer_ceiling_def)

lemma standin_remove [simp]:
  "remove_all_signals lib_standin = remove_all_signals_standin"
  "remove_all_signals lib_keep_standin = (\<lambda>s. s)"
  by (simp_all add: lib_standin_def lib_keep_standin_def)




subsection \<open>The state in which a failed read leaves the method\<close>






section \<open>The failure exits and the visible window\<close>


subsection \<open>The capacity exit on the examples\<close>

lemma lib32_standin_ceiling [simp]:
  "buffer_ceiling lib32_standin = 4294967295"
  "msg_limit lib32_standin = ''You have hit the memory limit of 4.2GB.''"
  by (simp_all add: buffer_ceiling_def msg_limit_def lib32_standin_def lib_standin_def)

lemma fail_exit_standin_freads [simp]:
  "freads (fail_exit lib_standin m s) = freads s"
  "freads (fail_exit lib32_standin m s) = freads s"
  "freads (fail_exit lib_keep_standin m s) = freads s"
  by (simp_all add: fail_exit_def lib_standin_def lib32_standin_def lib_keep_standin_def
      remove_all_signals_standin_def)






subsection \<open>A failed read on the examples\<close>













end
